theory Spec2Isabelle
  imports Complex_Main "HOL-Library.AList" "HOL-Library.Word"
begin

section \<open>The game client of game.js\<close>

text \<open>
  The class \<^verbatim>\<open>GameClient\<close> of \<^verbatim>\<open>src/game.js\<close> is embedded as a record of its fields and
  one function per method or event listener, each taking the client and returning the
  updated client.

  \<^item> A JavaScript object used as a dictionary is an association list in insertion
    order: \<open>map_of\<close> reads a property, \<open>AList.update\<close> assigns one (in place when the
    key exists, appended otherwise), \<open>AList.delete\<close> deletes one. JavaScript enumerates
    keys that look like array indices before the others; that changes the order in which
    players are drawn and nothing else here.
  \<^item> A number is a \<open>jsnum\<close>: \<^verbatim>\<open>NaN\<close>, an infinity, or a finite value, and every sum and
    difference is rounded as IEEE 754 binary64 rounds it (to nearest, ties to even). The
    two zeros are one value. \<open>Fin r\<close> is a number of the program when \<open>r\<close> is a double;
    \<open>fl\<close> maps every real to one. Every field of a player may be absent (\<open>None\<close> is
    JavaScript's \<^verbatim>\<open>undefined\<close>, which arithmetic reads as \<^verbatim>\<open>NaN\<close>).
  \<^item> Fields of the class that only ever hold one integer constant (\<^verbatim>\<open>worldWidth\<close>,
    \<^verbatim>\<open>avatarSize\<close>) are reals, and the canvas size is the 32-bit unsigned integer that
    the canvas element stores.
  \<^item> A property read sees own properties. The one read of the player store whose result
    is computed with, in \<open>centerCameraOnMyAvatar\<close>, also sees the properties every object
    inherits from \<^verbatim>\<open>Object.prototype\<close>.
  \<^item> A message is one of the protocol's shapes. A payload that parses to something else
    is outside the model.
  \<^item> The collaborators the class writes to are traces inside the record: \<open>sent\<close> is
    what \<^verbatim>\<open>websocket.send\<close> was given, \<open>console\<close> what was logged, \<open>canvas_ops\<close> the
    calls on the 2D context. Style settings of the context and the mouse cursor are
    left out.
\<close>

subsection \<open>Numbers\<close>

datatype jsnum = NaN | Infinity | NegInfinity | Fin real

text \<open>
  Rounding to binary64. A finite double is \<open>m * 2 powi e\<close> with \<open>\<bar>m\<bar> < 2 ^ 53\<close> and
  \<open>- 1074 \<le> e \<le> 971\<close>. \<open>ulp_exp a\<close> is the exponent of the doubles around the magnitude
  \<open>a\<close>: the least \<open>e\<close> from \<open>- 1074\<close> on with \<open>a < 2 powi (e + 53)\<close>, and 971 at most.
  \<open>fl\<close> rounds the quotient by that unit to the nearest integer, the even one on a tie,
  and overflows to an infinity from \<open>2 ^ 1024\<close> on.
\<close>

fun find_exp :: "nat \<Rightarrow> int \<Rightarrow> real \<Rightarrow> int" where
  "find_exp 0 e a = e"
| "find_exp (Suc n) e a = (if a < 2 powi (e + 53) then e else find_exp n (e + 1) a)"

definition ulp_exp :: "real \<Rightarrow> int" where
  "ulp_exp a = find_exp 2045 (- 1074) a"

definition round_half_even :: "real \<Rightarrow> int" where
  "round_half_even r =
     (let f = \<lfloor>r\<rfloor>; d = r - of_int f
      in if d < 1 / 2 then f else if 1 / 2 < d then f + 1 else if even f then f else f + 1)"

definition fl :: "real \<Rightarrow> jsnum" where
  "fl x =
     (let e = ulp_exp \<bar>x\<bar>;
          r = of_int (round_half_even (x / 2 powi e)) * 2 powi e
      in if 2 ^ 1024 \<le> r then Infinity
         else if r \<le> - (2 ^ 1024) then NegInfinity
         else Fin r)"

text \<open>The operators \<^verbatim>\<open>+\<close>, unary \<^verbatim>\<open>-\<close>, binary \<^verbatim>\<open>-\<close> and \<^verbatim>\<open>/ 2\<close> on numbers.\<close>

fun js_add :: "jsnum \<Rightarrow> jsnum \<Rightarrow> jsnum" where
  "js_add (Fin a) (Fin b) = fl (a + b)"
| "js_add NaN b = NaN"
| "js_add a NaN = NaN"
| "js_add Infinity NegInfinity = NaN"
| "js_add NegInfinity Infinity = NaN"
| "js_add Infinity b = Infinity"
| "js_add a Infinity = Infinity"
| "js_add NegInfinity b = NegInfinity"
| "js_add a NegInfinity = NegInfinity"

fun js_neg :: "jsnum \<Rightarrow> jsnum" where
  "js_neg NaN = NaN"
| "js_neg Infinity = NegInfinity"
| "js_neg NegInfinity = Infinity"
| "js_neg (Fin a) = Fin (- a)"

definition js_sub :: "jsnum \<Rightarrow> jsnum \<Rightarrow> jsnum" where
  "js_sub a b = js_add a (js_neg b)"

fun js_div2 :: "jsnum \<Rightarrow> jsnum" where
  "js_div2 (Fin a) = fl (a / 2)"
| "js_div2 a = a"

text \<open>The comparison \<^verbatim>\<open>a <= b\<close>, false when either side is \<^verbatim>\<open>NaN\<close>.\<close>

fun js_le :: "jsnum \<Rightarrow> jsnum \<Rightarrow> bool" where
  "js_le NaN b = False"
| "js_le a NaN = False"
| "js_le NegInfinity b = True"
| "js_le a Infinity = True"
| "js_le (Fin a) (Fin b) = (a \<le> b)"
| "js_le a b = False"

definition Math_min :: "jsnum \<Rightarrow> jsnum \<Rightarrow> jsnum" where
  "Math_min a b = (if a = NaN \<or> b = NaN then NaN else if js_le a b then a else b)"

definition Math_max :: "jsnum \<Rightarrow> jsnum \<Rightarrow> jsnum" where
  "Math_max a b = (if a = NaN \<or> b = NaN then NaN else if js_le a b then b else a)"

fun Math_floor :: "jsnum \<Rightarrow> jsnum" where
  "Math_floor (Fin a) = Fin (of_int \<lfloor>a\<rfloor>)"
| "Math_floor a = a"

text \<open>A field that may be absent, read as a number.\<close>

definition to_number :: "jsnum option \<Rightarrow> jsnum" where
  "to_number v = (case v of None \<Rightarrow> NaN | Some n \<Rightarrow> n)"

subsection \<open>Data\<close>

record player =
  p_id :: "string option"
  p_username :: "string option"
  p_x :: "jsnum option"
  p_y :: "jsnum option"
  p_facing :: "string option"
  p_avatar :: "string option"
  p_animationFrame :: "int option"

text \<open>An image element is identified by its \<^verbatim>\<open>src\<close>.\<close>

datatype image = Image string

record avatar =
  a_name :: string
  a_frames :: "(string \<times> string list) list"

datatype ready_state = CONNECTING | OPEN | CLOSING | CLOSED

datatype out_msg = Move string | Stop

datatype level = LOG | ERROR

text \<open>
  \<open>Mirrored img\<close> is the temporary canvas on which \<open>img\<close> was drawn under
  \<^verbatim>\<open>scale(-1, 1)\<close>.
\<close>

datatype sprite = Plain image | Mirrored image

datatype draw_op =
    ClearRect real real real real
  | DrawWorld image jsnum jsnum real real real real real real
  | DrawImage sprite jsnum jsnum real real
  | StrokeText string jsnum jsnum
  | FillText string jsnum jsnum

text \<open>The messages of the protocol, after \<^verbatim>\<open>JSON.parse\<close>.\<close>

datatype message =
    JoinGame bool "string option" "(string \<times> player) list" "(string \<times> avatar) list"
  | PlayerJoined player avatar
  | PlayersMoved "(string \<times> player) list"
  | PlayerLeft string
  | UnknownAction string

record client =
  canvas_width :: "32 word"
  canvas_height :: "32 word"
  worldImage :: "image option"
  worldWidth :: real
  worldHeight :: real
  myPlayerId :: "string option"
  players :: "(string \<times> player) list"
  avatars :: "(string \<times> avatar) list"
  websocket :: "ready_state option"
  cameraX :: jsnum
  cameraY :: jsnum
  avatarSize :: real
  loadedAvatarImages :: "(string \<times> (string \<times> image list) list) list"
  pressedKeys :: "string list"
  isMoving :: bool
  movementInterval :: "nat option"
  movementSpeed :: nat
  isDragging :: bool
  lastMouseX :: jsnum
  lastMouseY :: jsnum
  sent :: "out_msg list"
  console :: "(level \<times> string) list"
  canvas_ops :: "draw_op list"

text \<open>
  The state the constructor leaves behind: the field initialisers, then \<^verbatim>\<open>init\<close>, which
  sizes the canvas to the window, creates the world image and opens the socket.
\<close>

definition new_GameClient :: "32 word \<Rightarrow> 32 word \<Rightarrow> client" where
  "new_GameClient innerWidth innerHeight =
     \<lparr> canvas_width = innerWidth, canvas_height = innerHeight,
       worldImage = Some (Image ''world.jpg''),
       worldWidth = 2048, worldHeight = 2048,
       myPlayerId = None, players = [], avatars = [],
       websocket = Some CONNECTING,
       cameraX = Fin 0, cameraY = Fin 0,
       avatarSize = 32, loadedAvatarImages = [],
       pressedKeys = [], isMoving = False, movementInterval = None, movementSpeed = 100,
       isDragging = False, lastMouseX = Fin 0, lastMouseY = Fin 0,
       sent = [], console = [], canvas_ops = [] \<rparr>"

subsection \<open>JavaScript primitives\<close>

text \<open>A property key made from a value that may be \<^verbatim>\<open>undefined\<close>.\<close>

definition key_of :: "string option \<Rightarrow> string" where
  "key_of k = (case k of None \<Rightarrow> ''undefined'' | Some s \<Rightarrow> s)"

text \<open>The names of the properties that every object inherits from \<^verbatim>\<open>Object.prototype\<close>.\<close>

definition Object_prototype_keys :: "string list" where
  "Object_prototype_keys =
     [''constructor'', ''__defineGetter__'', ''__defineSetter__'', ''hasOwnProperty'',
      ''__lookupGetter__'', ''__lookupSetter__'', ''isPrototypeOf'', ''propertyIsEnumerable'',
      ''toString'', ''valueOf'', ''__proto__'', ''toLocaleString'']"

text \<open>\<^verbatim>\<open>Object.assign(target, source)\<close>: every own property of the source is assigned.\<close>

definition Object_assign :: "('k \<times> 'v) list \<Rightarrow> ('k \<times> 'v) list \<Rightarrow> ('k \<times> 'v) list" where
  "Object_assign target source = fold (\<lambda>(k, v). AList.update k v) source target"

definition log :: "string \<Rightarrow> client \<Rightarrow> client" where
  "log msg s = s\<lparr>console := console s @ [(LOG, msg)]\<rparr>"

definition log_error :: "string \<Rightarrow> client \<Rightarrow> client" where
  "log_error msg s = s\<lparr>console := console s @ [(ERROR, msg)]\<rparr>"

definition draw :: "draw_op \<Rightarrow> client \<Rightarrow> client" where
  "draw op s = s\<lparr>canvas_ops := canvas_ops s @ [op]\<rparr>"

subsection \<open>Camera and rendering\<close>

definition worldToScreen :: "client \<Rightarrow> jsnum \<Rightarrow> jsnum \<Rightarrow> jsnum \<times> jsnum" where
  "worldToScreen s worldX worldY = (js_sub worldX (cameraX s), js_sub worldY (cameraY s))"

text \<open>
  \<^verbatim>\<open>this.players[this.myPlayerId]\<close> is truthy for a stored player, and for an inherited
  property too, whose \<^verbatim>\<open>x\<close> and \<^verbatim>\<open>y\<close> are \<^verbatim>\<open>undefined\<close>.
\<close>

definition centerCameraOnMyAvatar :: "client \<Rightarrow> client" where
  "centerCameraOnMyAvatar s =
     (case myPlayerId s of
        None \<Rightarrow> s
      | Some pid \<Rightarrow>
          if pid = [] then s
          else (case map_of (players s) pid of
                  None \<Rightarrow>
                    if pid \<in> set Object_prototype_keys
                    then s\<lparr>cameraX := js_sub (to_number None)
                                       (js_div2 (Fin (real (unat (canvas_width s))))),
                           cameraY := js_sub (to_number None)
                                       (js_div2 (Fin (real (unat (canvas_height s)))))\<rparr>
                    else s
                | Some myPlayer \<Rightarrow>
                    s\<lparr>cameraX := js_sub (to_number (p_x myPlayer))
                                   (js_div2 (Fin (real (unat (canvas_width s))))),
                      cameraY := js_sub (to_number (p_y myPlayer))
                                   (js_div2 (Fin (real (unat (canvas_height s)))))\<rparr>))"

text \<open>
  \<^verbatim>\<open>player.animationFrame || 0\<close>: an absent index and the index 0 are both falsy.
\<close>

definition frameIndex_of :: "player \<Rightarrow> int" where
  "frameIndex_of player =
     (case p_animationFrame player of None \<Rightarrow> 0 | Some i \<Rightarrow> if i = 0 then 0 else i)"

text \<open>\<^verbatim>\<open>frames[frameIndex]\<close>: \<^verbatim>\<open>undefined\<close> outside the array.\<close>

definition frame_at :: "image list \<Rightarrow> int \<Rightarrow> image option" where
  "frame_at frames i = (if 0 \<le> i \<and> i < int (length frames) then Some (frames ! nat i) else None)"

definition renderAvatar :: "player \<Rightarrow> jsnum \<Rightarrow> jsnum \<Rightarrow> client \<Rightarrow> client" where
  "renderAvatar player screenX screenY s =
     (case (map_of (avatars s) (key_of (p_avatar player)),
            map_of (loadedAvatarImages s) (key_of (p_avatar player))) of
        (Some avatar, Some loaded) \<Rightarrow>
          (let facing = p_facing player;
               frameIndex = frameIndex_of player;
               west = (facing = Some ''left'' \<or> facing = Some ''west'');
               frames = (if west then map_of loaded ''east'' else map_of loaded (key_of facing));
               shouldFlip = west;
               s1 = (if west then log ''Rendering west-facing avatar with flip'' s
                     else log ''Rendering avatar facing:'' s)
           in case frames of
                None \<Rightarrow> s1
              | Some fs \<Rightarrow>
                  (case frame_at fs frameIndex of
                     None \<Rightarrow> s1
                   | Some avatarImg \<Rightarrow>
                       (let avatarX = js_sub screenX (js_div2 (Fin (avatarSize s)));
                            avatarY = js_sub screenY (js_div2 (Fin (avatarSize s)));
                            s2 = log ''Avatar position:'' s1;
                            s3 = (if shouldFlip
                                  then log ''Flipped avatar drawn at:''
                                         (draw (DrawImage (Mirrored avatarImg) avatarX avatarY
                                                  (avatarSize s) (avatarSize s))
                                            (log ''Flipping avatar for west direction'' s2))
                                  else draw (DrawImage (Plain avatarImg) avatarX avatarY
                                               (avatarSize s) (avatarSize s)) s2);
                            labelY = js_sub avatarY (Fin 5);
                            labelX = screenX
                        in draw (FillText (key_of (p_username player)) labelX labelY)
                             (draw (StrokeText (key_of (p_username player)) labelX labelY) s3))))
      | _ \<Rightarrow> s)"

definition renderAvatars :: "client \<Rightarrow> client" where
  "renderAvatars s =
     fold (\<lambda>player s'.
             (let screenPos = worldToScreen s' (to_number (p_x player)) (to_number (p_y player))
              in renderAvatar player (fst screenPos) (snd screenPos) (log ''Player at world -> screen'' s')))
          (map snd (players s)) (log ''Rendering players'' s)"

definition drawWorld :: "client \<Rightarrow> client" where
  "drawWorld s =
     (case worldImage s of
        None \<Rightarrow> s
      | Some img \<Rightarrow>
          (let s1 = draw (ClearRect 0 0 (real (unat (canvas_width s)))
                            (real (unat (canvas_height s)))) s;
               viewportWidth = real (unat (canvas_width s));
               viewportHeight = real (unat (canvas_height s));
               s2 = s1\<lparr>cameraX := Math_max (Fin 0)
                                    (Math_min (cameraX s1)
                                       (js_sub (Fin (worldWidth s1)) (Fin viewportWidth))),
                       cameraY := Math_max (Fin 0)
                                    (Math_min (cameraY s1)
                                       (js_sub (Fin (worldHeight s1)) (Fin viewportHeight)))\<rparr>;
               s3 = draw (DrawWorld img (cameraX s2) (cameraY s2) viewportWidth viewportHeight
                            0 0 viewportWidth viewportHeight) s2
           in renderAvatars s3))"

subsection \<open>Pointer listeners\<close>

text \<open>
  The click listener converts the pointer position (\<open>x\<close>, \<open>y\<close> relative to the canvas)
  to world coordinates and logs them. \<open>clickToWorld\<close> is the pair it computes.
\<close>

definition clickToWorld :: "client \<Rightarrow> jsnum \<Rightarrow> jsnum \<Rightarrow> jsnum \<times> jsnum" where
  "clickToWorld s x y =
     (let worldX = Math_floor (js_add x (cameraX s));
          worldY = Math_floor (js_add y (cameraY s))
      in (worldX, worldY))"

definition onClick :: "jsnum \<Rightarrow> jsnum \<Rightarrow> client \<Rightarrow> client" where
  "onClick x y s =
     (case clickToWorld s x y of (worldX, worldY) \<Rightarrow> log ''Clicked at world coordinates:'' s)"

definition onMouseDown :: "jsnum \<Rightarrow> jsnum \<Rightarrow> client \<Rightarrow> client" where
  "onMouseDown clientX clientY s =
     s\<lparr>isDragging := True, lastMouseX := clientX, lastMouseY := clientY\<rparr>"

definition onMouseMove :: "jsnum \<Rightarrow> jsnum \<Rightarrow> client \<Rightarrow> client" where
  "onMouseMove clientX clientY s =
     (if isDragging s
      then (let deltaX = js_sub clientX (lastMouseX s);
                deltaY = js_sub clientY (lastMouseY s)
            in drawWorld (s\<lparr>cameraX := js_sub (cameraX s) deltaX,
                            cameraY := js_sub (cameraY s) deltaY,
                            lastMouseX := clientX, lastMouseY := clientY\<rparr>))
      else s)"

definition onMouseUp :: "client \<Rightarrow> client" where
  "onMouseUp s = s\<lparr>isDragging := False\<rparr>"

subsection \<open>Server messages\<close>

definition loadAvatarImages :: "client \<Rightarrow> client" where
  "loadAvatarImages s =
     fold (\<lambda>avatar s'.
             if map_of (loadedAvatarImages s') (a_name avatar) = None
             then s'\<lparr>loadedAvatarImages :=
                       AList.update (a_name avatar)
                         (concat (map (\<lambda>direction.
                                         case map_of (a_frames avatar) direction of
                                           None \<Rightarrow> []
                                         | Some fs \<Rightarrow> [(direction, map Image fs)])
                                    [''north'', ''south'', ''east'']))
                         (loadedAvatarImages s')\<rparr>
             else s')
          (map snd (avatars s)) s"

definition handleServerMessage :: "message \<Rightarrow> client \<Rightarrow> client" where
  "handleServerMessage message s =
     (let s0 = log ''Current players:''
                 (log ''Current players count:'' (log ''Received message:'' s))
      in case message of
           JoinGame success playerId ps avs \<Rightarrow>
             if success
             then drawWorld (centerCameraOnMyAvatar (loadAvatarImages
                    (log ''Players data:'' (log ''All players received:''
                      (log ''My player ID:'' (log ''Joined game successfully!''
                        (s0\<lparr>myPlayerId := playerId, players := ps, avatars := avs\<rparr>)))))))
             else log_error ''Failed to join game:'' s0
         | PlayerJoined p a \<Rightarrow>
             drawWorld (loadAvatarImages
               ((log ''New player joined:'' s0)
                  \<lparr>players := AList.update (key_of (p_id p)) p (players s0),
                    avatars := AList.update (a_name a) a (avatars s0)\<rparr>))
         | PlayersMoved ps \<Rightarrow>
             drawWorld (centerCameraOnMyAvatar
               ((log ''Players moved, updating positions:'' s0)
                  \<lparr>players := Object_assign (players s0) ps\<rparr>))
         | PlayerLeft playerId \<Rightarrow>
             drawWorld ((log ''Player left:'' s0)
                          \<lparr>players := AList.delete playerId (players s0)\<rparr>)
         | UnknownAction action \<Rightarrow> log ''Unknown message type:'' s0)"

text \<open>
  The \<^verbatim>\<open>onmessage\<close> listener. \<^verbatim>\<open>JSON.parse\<close> is a parameter: \<open>None\<close> is the
  \<^verbatim>\<open>SyntaxError\<close> it throws on a payload that is not JSON, which the listener catches.
\<close>

definition onmessage :: "(string \<Rightarrow> message option) \<Rightarrow> string \<Rightarrow> client \<Rightarrow> client" where
  "onmessage JSON_parse data s =
     (case JSON_parse data of
        Some message \<Rightarrow> handleServerMessage message s
      | None \<Rightarrow> log_error ''Error parsing server message:'' s)"

subsection \<open>Keyboard and the movement loop\<close>

definition keyMap :: "(string \<times> string) list" where
  "keyMap =
     [(''ArrowUp'', ''up''), (''ArrowDown'', ''down''),
      (''ArrowLeft'', ''left''), (''ArrowRight'', ''right''),
      (''KeyW'', ''up''), (''KeyS'', ''down''), (''KeyA'', ''left''), (''KeyD'', ''right'')]"

definition sendMoveCommand :: "string \<Rightarrow> client \<Rightarrow> client" where
  "sendMoveCommand direction s =
     (if websocket s \<noteq> Some OPEN
      then log ''WebSocket not connected, cannot send move command'' s
      else log ''Sent move command:'' (s\<lparr>sent := sent s @ [Move direction]\<rparr>))"

definition sendStopCommand :: "client \<Rightarrow> client" where
  "sendStopCommand s =
     (if websocket s \<noteq> Some OPEN
      then log ''WebSocket not connected, cannot send stop command'' s
      else log ''Sent stop command'' (s\<lparr>sent := sent s @ [Stop]\<rparr>))"

text \<open>
  The handle \<^verbatim>\<open>setInterval\<close> returns is a positive number; one interval is live at a
  time, and the model gives it the handle 1.
\<close>

definition startContinuousMovement :: "client \<Rightarrow> client" where
  "startContinuousMovement s =
     (if movementInterval s \<noteq> None then s else s\<lparr>movementInterval := Some 1\<rparr>)"

definition stopContinuousMovement :: "client \<Rightarrow> client" where
  "stopContinuousMovement s =
     (if movementInterval s \<noteq> None then s\<lparr>movementInterval := None\<rparr> else s)"

text \<open>The callback of the interval.\<close>

definition movementTick :: "client \<Rightarrow> client" where
  "movementTick s =
     (case pressedKeys s of
        [] \<Rightarrow> s
      | k # _ \<Rightarrow> (case map_of keyMap k of
                    Some direction \<Rightarrow> sendMoveCommand direction s
                  | None \<Rightarrow> s))"

definition checkMovementState :: "client \<Rightarrow> client" where
  "checkMovementState s =
     (let hasMovementKeys = (length (pressedKeys s) > 0)
      in if isMoving s \<and> \<not> hasMovementKeys
         then sendStopCommand (stopContinuousMovement (s\<lparr>isMoving := False\<rparr>))
         else s)"

definition handleKeyDown :: "string \<Rightarrow> client \<Rightarrow> client" where
  "handleKeyDown code s =
     (if code = ''KeyC'' then drawWorld (centerCameraOnMyAvatar s)
      else (case map_of keyMap code of
              Some direction \<Rightarrow>
                if code \<notin> set (pressedKeys s)
                then startContinuousMovement
                       (sendMoveCommand direction (s\<lparr>pressedKeys := pressedKeys s @ [code]\<rparr>))
                else s
            | None \<Rightarrow> s))"

definition handleKeyUp :: "string \<Rightarrow> client \<Rightarrow> client" where
  "handleKeyUp code s =
     (case map_of keyMap code of
        Some direction \<Rightarrow>
          if code \<in> set (pressedKeys s)
          then checkMovementState (s\<lparr>pressedKeys := removeAll code (pressedKeys s)\<rparr>)
          else s
      | None \<Rightarrow> s)"

text \<open>
  A run of the input loop: key events, and ticks of the interval, which fire only while
  an interval is set.
\<close>

datatype event = KeyDown string | KeyUp string | Tick

fun step :: "client \<Rightarrow> event \<Rightarrow> client" where
  "step s (KeyDown code) = handleKeyDown code s"
| "step s (KeyUp code) = handleKeyUp code s"
| "step s Tick = (if movementInterval s = None then s else movementTick s)"

definition run :: "event list \<Rightarrow> client \<Rightarrow> client" where
  "run evs s = foldl step s evs"

subsection \<open>The camera property\<close>

text \<open>
  The camera lies inside the world, or at 0 on an axis where the viewport is larger. The
  comparisons are JavaScript's, so a \<^verbatim>\<open>NaN\<close> camera is not in bounds.
\<close>

definition camera_in_bounds :: "client \<Rightarrow> bool" where
  "camera_in_bounds s =
     (js_le (Fin 0) (cameraX s) \<and>
      js_le (cameraX s)
        (Math_max (Fin 0) (js_sub (Fin (worldWidth s)) (Fin (real (unat (canvas_width s)))))) \<and>
      js_le (Fin 0) (cameraY s) \<and>
      js_le (cameraY s)
        (Math_max (Fin 0) (js_sub (Fin (worldHeight s)) (Fin (real (unat (canvas_height s)))))))"

subsection \<open>Sample values\<close>

text \<open>Concrete players, an avatar, a parser and clients, to run the functions on.\<close>

definition robert :: player where
  "robert = \<lparr>p_id = Some ''p1'', p_username = Some ''Robert'',
              p_x = Some (Fin 1000), p_y = Some (Fin 1000),
              p_facing = Some ''south'', p_avatar = Some ''knight'', p_animationFrame = Some 1\<rparr>"

definition anna :: player where
  "anna = \<lparr>p_id = Some ''p2'', p_username = Some ''Anna'',
            p_x = Some (Fin 40), p_y = Some (Fin 50),
            p_facing = Some ''west'', p_avatar = Some ''knight'', p_animationFrame = None\<rparr>"

text \<open>An update for the first player that carries neither a username nor an avatar.\<close>

definition moved_robert :: player where
  "moved_robert = \<lparr>p_id = Some ''p1'', p_username = None,
                    p_x = Some (Fin 0), p_y = Some (Fin 0),
                    p_facing = Some ''north'', p_avatar = None, p_animationFrame = Some 1\<rparr>"

text \<open>An update for the first player that carries a facing only.\<close>

definition turned_robert :: player where
  "turned_robert = \<lparr>p_id = None, p_username = None, p_x = None, p_y = None,
                     p_facing = Some ''north'', p_avatar = None, p_animationFrame = None\<rparr>"

definition knight :: avatar where
  "knight = \<lparr>a_name = ''knight'',
              a_frames = [(''north'', [''n0'', ''n1'']), (''south'', [''s0'', ''s1'']),
                          (''east'', [''e0'', ''e1''])]\<rparr>"

definition connected_client :: client where
  "connected_client = (new_GameClient 800 600)\<lparr>websocket := Some OPEN\<rparr>"

definition joined_client :: client where
  "joined_client =
     handleServerMessage
       (JoinGame True (Some ''p1'') [(''p1'', robert), (''p2'', anna)] [(''knight'', knight)])
       connected_client"

text \<open>The same join in a window 801 pixels wide.\<close>

definition odd_width_client :: client where
  "odd_width_client =
     handleServerMessage
       (JoinGame True (Some ''p1'') [(''p1'', robert), (''p2'', anna)] [(''knight'', knight)])
       ((new_GameClient 801 600)\<lparr>websocket := Some OPEN\<rparr>)"

text \<open>A parser that accepts one payload only.\<close>

definition sample_parse :: "string \<Rightarrow> message option" where
  "sample_parse d = (if d = ''{}'' then Some (UnknownAction ''undefined'') else None)"

section \<open>Rounding\<close>

text \<open>
  \<open>fl\<close> leaves every double as it is. It is proved here for the doubles that are an
  integer below \<open>2 ^ 53\<close> over a power of two, which covers integers and halves.
\<close>

lemma find_exp_bounds:
  "e \<le> find_exp n e a \<and> find_exp n e a \<le> e + int n"
  by (induction n e a rule: find_exp.induct) auto

lemma find_exp_lower:
  "e < find_exp n e a \<Longrightarrow> 2 powi (find_exp n e a + 52) \<le> a"
proof (induction n e a rule: find_exp.induct)
  case (1 e a)
  then show ?case by simp
next
  case (2 n e a)
  show ?case
  proof (cases "a < 2 powi (e + 53)")
    case True
    with "2.prems" show ?thesis by simp
  next
    case False
    then have eq: "find_exp (Suc n) e a = find_exp n (e + 1) a" by simp
    show ?thesis
    proof (cases "e + 1 < find_exp n (e + 1) a")
      case True
      with "2.IH" False eq show ?thesis by simp
    next
      case stop: False
      with find_exp_bounds [of "e + 1" n a] have "find_exp n (e + 1) a = e + 1" by simp
      with False eq show ?thesis by (simp add: add.commute add.left_commute)
    qed
  qed
qed

lemma ulp_exp_bounds: "- 1074 \<le> ulp_exp a \<and> ulp_exp a \<le> 971"
  using find_exp_bounds [of "- 1074" 2045 a] by (simp add: ulp_exp_def)

lemma ulp_exp_lower: "- 1074 < ulp_exp a \<Longrightarrow> 2 powi (ulp_exp a + 52) \<le> a"
  unfolding ulp_exp_def by (rule find_exp_lower)

lemma round_half_even_of_int: "round_half_even (of_int n) = n"
  by (simp add: round_half_even_def)

lemma scaled_is_int:
  fixes x :: real
  assumes m: "x * 2 ^ k = of_int m" and small: "\<bar>x\<bar> * 2 ^ k < 2 ^ 53" and k: "k \<le> 1074"
  shows "\<exists>n. x / 2 powi (ulp_exp \<bar>x\<bar>) = of_int n"
proof -
  let ?e = "ulp_exp \<bar>x\<bar>"
  have le: "?e \<le> - int k"
  proof (rule ccontr)
    assume "\<not> ?e \<le> - int k"
    then have gt: "- int k < ?e" by simp
    with k have "- 1074 < ?e" by simp
    then have low: "2 powi (?e + 52) \<le> \<bar>x\<bar>" by (rule ulp_exp_lower)
    have "(2::real) powi 53 \<le> 2 powi (?e + 52 + int k)"
      using gt by (intro power_int_increasing) simp_all
    also have "\<dots> = 2 powi (?e + 52) * 2 ^ k"
      by (simp add: power_int_add)
    also have "\<dots> \<le> \<bar>x\<bar> * 2 ^ k"
      using low by simp
    finally show False using small by simp
  qed
  define j where "j = nat (- ?e - int k)"
  with le have j: "- ?e = int k + int j" by simp
  have "x / 2 powi ?e = x * 2 powi (- ?e)"
    by (simp add: power_int_minus field_simps)
  also have "\<dots> = x * 2 powi (int k + int j)"
    by (simp only: j)
  also have "\<dots> = (x * 2 ^ k) * 2 ^ j"
    by (simp add: power_int_add)
  also have "\<dots> = of_int (m * 2 ^ j)"
    by (simp add: m)
  finally show ?thesis by blast
qed

lemma fl_exact:
  fixes x :: real
  assumes "x * 2 ^ k \<in> \<int>" and small: "\<bar>x\<bar> * 2 ^ k < 2 ^ 53" and k: "k \<le> 1074"
  shows "fl x = Fin x"
proof -
  let ?u = "(2::real) powi (ulp_exp \<bar>x\<bar>)"
  from assms(1) obtain m where m: "x * 2 ^ k = of_int m" by (auto simp: Ints_def)
  from scaled_is_int [OF m small k] obtain n where n: "x / ?u = of_int n"
    by blast
  have pos: "?u \<noteq> 0" by simp
  have "of_int (round_half_even (x / ?u)) * ?u = (x / ?u) * ?u"
    by (simp only: n round_half_even_of_int)
  also have "\<dots> = x"
    using pos by simp
  finally have r: "of_int (round_half_even (x / ?u)) * ?u = x" .
  have "\<bar>x\<bar> * 1 \<le> \<bar>x\<bar> * 2 ^ k"
    by (intro mult_left_mono) simp_all
  with small have "\<bar>x\<bar> < 2 ^ 53" by simp
  also have "(2::real) ^ 53 \<le> 2 ^ 1024" by (intro power_increasing) simp_all
  finally have "\<bar>x\<bar> < 2 ^ 1024" .
  then have "\<not> 2 ^ 1024 \<le> x" and "\<not> x \<le> - (2 ^ 1024)" by linarith+
  then show ?thesis
    unfolding fl_def Let_def r by simp
qed

lemma fl_int: "x \<in> \<int> \<Longrightarrow> \<bar>x\<bar> < 2 ^ 53 \<Longrightarrow> fl x = Fin x"
  using fl_exact [of x 0] by simp

lemma fl_half: "x * 2 \<in> \<int> \<Longrightarrow> \<bar>x\<bar> * 2 < 2 ^ 53 \<Longrightarrow> fl x = Fin x"
  using fl_exact [of x 1] by simp

lemma fl_not_NaN: "fl x \<noteq> NaN"
  by (simp add: fl_def Let_def)

lemma js_sub_Fin_not_NaN: "b \<noteq> NaN \<Longrightarrow> js_sub (Fin a) b \<noteq> NaN"
  by (cases b) (simp_all add: js_sub_def fl_not_NaN)

lemma js_sub_not_NaN_Fin: "a \<noteq> NaN \<Longrightarrow> js_sub a (Fin b) \<noteq> NaN"
  by (cases a) (simp_all add: js_sub_def fl_not_NaN)

lemma half_of_canvas:
  "js_div2 (Fin (real (unat (w :: 32 word)))) = Fin (real (unat w) / 2)"
proof -
  define r where "r = real (unat w)"
  have nn: "0 \<le> r" unfolding r_def by (rule of_nat_0_le_iff)
  have int: "r \<in> \<int>" unfolding r_def by (rule Ints_of_nat)
  have "unat w < 2 ^ 32"
    using unsigned_less [of w, where ?'a = nat] by simp
  then have "r < 2 ^ 32"
    unfolding r_def by (metis of_nat_less_iff of_nat_numeral of_nat_power)
  also have "(2::real) ^ 32 \<le> 2 ^ 53" by (intro power_increasing) simp_all
  finally have small: "r < 2 ^ 53" .
  have "\<bar>r / 2\<bar> * 2 = r" using nn by simp
  with small have "\<bar>r / 2\<bar> * 2 < 2 ^ 53" by simp
  moreover have "r / 2 * 2 \<in> \<int>" using int by simp
  ultimately have "fl (r / 2) = Fin (r / 2)"
    by (rule fl_half [rotated])
  then show ?thesis
    unfolding r_def by (simp only: js_div2.simps)
qed

lemma clamp_bounds:
  assumes "c \<noteq> NaN" and "b \<noteq> NaN"
  shows "js_le (Fin 0) (Math_max (Fin 0) (Math_min c b))"
    and "js_le (Math_max (Fin 0) (Math_min c b)) (Math_max (Fin 0) b)"
  using assms by (cases c; cases b; simp add: Math_max_def Math_min_def)+

section \<open>What rendering and loading leave alone\<close>

text \<open>
  Rendering writes to the console and the canvas only, \<open>drawWorld\<close> also clamps the
  camera, and \<open>loadAvatarImages\<close> writes the image table only.
\<close>

lemma renderAvatar_frame:
  "renderAvatar p x y s =
     s\<lparr>console := console (renderAvatar p x y s), canvas_ops := canvas_ops (renderAvatar p x y s)\<rparr>"
  by (simp add: renderAvatar_def log_def draw_def Let_def split: option.split)

lemma fold_frame:
  assumes "\<And>a s. f a s = s\<lparr>console := console (f a s), canvas_ops := canvas_ops (f a s)\<rparr>"
  shows "fold f xs s = s\<lparr>console := console (fold f xs s), canvas_ops := canvas_ops (fold f xs s)\<rparr>"
proof (induction xs arbitrary: s)
  case Nil
  show ?case by simp
next
  case (Cons a xs)
  have "fold f (a # xs) s = fold f xs (f a s)" by simp
  also have "\<dots> = (f a s)\<lparr>console := console (fold f xs (f a s)),
                            canvas_ops := canvas_ops (fold f xs (f a s))\<rparr>"
    by (rule Cons.IH)
  also have "\<dots> = s\<lparr>console := console (fold f xs (f a s)),
                            canvas_ops := canvas_ops (fold f xs (f a s))\<rparr>"
    by (subst assms) simp
  finally show ?case by simp
qed

lemma renderAvatars_frame:
  "renderAvatars s =
     s\<lparr>console := console (renderAvatars s), canvas_ops := canvas_ops (renderAvatars s)\<rparr>"
proof -
  let ?f = "\<lambda>player s'.
              renderAvatar player
                (fst (worldToScreen s' (to_number (p_x player)) (to_number (p_y player))))
                (snd (worldToScreen s' (to_number (p_x player)) (to_number (p_y player))))
                (log ''Player at world -> screen'' s')"
  let ?s0 = "log ''Rendering players'' s"
  have one: "\<And>a s. ?f a s = s\<lparr>console := console (?f a s), canvas_ops := canvas_ops (?f a s)\<rparr>"
    by (subst renderAvatar_frame) (simp add: log_def)
  have "fold ?f (map snd (players s)) ?s0 =
        ?s0\<lparr>console := console (fold ?f (map snd (players s)) ?s0),
            canvas_ops := canvas_ops (fold ?f (map snd (players s)) ?s0)\<rparr>"
    by (rule fold_frame) (rule one)
  then show ?thesis
    by (simp add: renderAvatars_def Let_def log_def)
qed

lemma drawWorld_clamps:
  "worldImage s \<noteq> None \<Longrightarrow> drawWorld s =
     s\<lparr>cameraX := Math_max (Fin 0)
                    (Math_min (cameraX s)
                       (js_sub (Fin (worldWidth s)) (Fin (real (unat (canvas_width s)))))),
       cameraY := Math_max (Fin 0)
                    (Math_min (cameraY s)
                       (js_sub (Fin (worldHeight s)) (Fin (real (unat (canvas_height s)))))),
       console := console (drawWorld s), canvas_ops := canvas_ops (drawWorld s)\<rparr>"
  apply (clarsimp simp add: drawWorld_def Let_def draw_def)
  apply (subst renderAvatars_frame)
  apply simp
  done

lemma drawWorld_camera:
  assumes "worldImage s \<noteq> None"
  shows "cameraX (drawWorld s) =
           Math_max (Fin 0)
             (Math_min (cameraX s) (js_sub (Fin (worldWidth s)) (Fin (real (unat (canvas_width s))))))"
    and "cameraY (drawWorld s) =
           Math_max (Fin 0)
             (Math_min (cameraY s) (js_sub (Fin (worldHeight s)) (Fin (real (unat (canvas_height s))))))"
  by (subst drawWorld_clamps [OF assms], simp)+

lemma drawWorld_frame:
  "drawWorld s =
     s\<lparr>cameraX := cameraX (drawWorld s), cameraY := cameraY (drawWorld s),
       console := console (drawWorld s), canvas_ops := canvas_ops (drawWorld s)\<rparr>"
proof (cases "worldImage s")
  case None
  then show ?thesis by (simp add: drawWorld_def)
next
  case (Some img)
  then have w: "worldImage s \<noteq> None" by simp
  show ?thesis
    by (subst drawWorld_clamps [OF w]) (simp add: drawWorld_camera [OF w])
qed

lemma drawWorld_fields:
  "players (drawWorld s) = players s"
  "avatars (drawWorld s) = avatars s"
  "myPlayerId (drawWorld s) = myPlayerId s"
  "worldImage (drawWorld s) = worldImage s"
  "worldWidth (drawWorld s) = worldWidth s"
  "worldHeight (drawWorld s) = worldHeight s"
  "canvas_width (drawWorld s) = canvas_width s"
  "canvas_height (drawWorld s) = canvas_height s"
  "websocket (drawWorld s) = websocket s"
  "sent (drawWorld s) = sent s"
  "isMoving (drawWorld s) = isMoving s"
  "pressedKeys (drawWorld s) = pressedKeys s"
  "movementInterval (drawWorld s) = movementInterval s"
  "loadedAvatarImages (drawWorld s) = loadedAvatarImages s"
  "avatarSize (drawWorld s) = avatarSize s"
  by (subst drawWorld_frame, simp)+

lemma centerCameraOnMyAvatar_fields:
  "players (centerCameraOnMyAvatar s) = players s"
  "avatars (centerCameraOnMyAvatar s) = avatars s"
  "myPlayerId (centerCameraOnMyAvatar s) = myPlayerId s"
  "worldImage (centerCameraOnMyAvatar s) = worldImage s"
  "worldWidth (centerCameraOnMyAvatar s) = worldWidth s"
  "worldHeight (centerCameraOnMyAvatar s) = worldHeight s"
  "canvas_width (centerCameraOnMyAvatar s) = canvas_width s"
  "canvas_height (centerCameraOnMyAvatar s) = canvas_height s"
  "websocket (centerCameraOnMyAvatar s) = websocket s"
  "sent (centerCameraOnMyAvatar s) = sent s"
  "isMoving (centerCameraOnMyAvatar s) = isMoving s"
  "pressedKeys (centerCameraOnMyAvatar s) = pressedKeys s"
  "movementInterval (centerCameraOnMyAvatar s) = movementInterval s"
  "loadedAvatarImages (centerCameraOnMyAvatar s) = loadedAvatarImages s"
  "avatarSize (centerCameraOnMyAvatar s) = avatarSize s"
  by (simp_all add: centerCameraOnMyAvatar_def split: option.split)

lemma loadAvatarImages_frame:
  "loadAvatarImages s = s\<lparr>loadedAvatarImages := loadedAvatarImages (loadAvatarImages s)\<rparr>"
proof -
  have gen: "fold f xs t = t\<lparr>loadedAvatarImages := loadedAvatarImages (fold f xs t)\<rparr>"
    if f: "\<And>a u. f a u = u\<lparr>loadedAvatarImages := loadedAvatarImages (f a u)\<rparr>"
    for f :: "avatar \<Rightarrow> client \<Rightarrow> client" and xs t
  proof (induction xs arbitrary: t)
    case Nil
    show ?case by simp
  next
    case (Cons a xs)
    have "fold f (a # xs) t = fold f xs (f a t)" by simp
    also have "\<dots> = (f a t)\<lparr>loadedAvatarImages := loadedAvatarImages (fold f xs (f a t))\<rparr>"
      by (rule Cons.IH)
    also have "\<dots> = t\<lparr>loadedAvatarImages := loadedAvatarImages (fold f xs (f a t))\<rparr>"
      by (subst f) simp
    finally show ?case by simp
  qed
  show ?thesis
    unfolding loadAvatarImages_def by (rule gen) simp
qed

lemma loadAvatarImages_fields:
  "players (loadAvatarImages s) = players s"
  "avatars (loadAvatarImages s) = avatars s"
  "myPlayerId (loadAvatarImages s) = myPlayerId s"
  "worldImage (loadAvatarImages s) = worldImage s"
  "worldWidth (loadAvatarImages s) = worldWidth s"
  "worldHeight (loadAvatarImages s) = worldHeight s"
  "canvas_width (loadAvatarImages s) = canvas_width s"
  "canvas_height (loadAvatarImages s) = canvas_height s"
  "cameraX (loadAvatarImages s) = cameraX s"
  "cameraY (loadAvatarImages s) = cameraY s"
  "avatarSize (loadAvatarImages s) = avatarSize s"
  by (subst loadAvatarImages_frame, simp)+

section \<open>The sample clients\<close>

lemma joined_client_store:
  "players joined_client = [(''p1'', robert), (''p2'', anna)]"
  "myPlayerId joined_client = Some ''p1''"
  "avatars joined_client = [(''knight'', knight)]"
  by (simp_all add: joined_client_def handleServerMessage_def Let_def drawWorld_fields
        centerCameraOnMyAvatar_fields loadAvatarImages_fields log_def)

lemma joined_client_size:
  "canvas_width joined_client = 800" "canvas_height joined_client = 600"
  "worldWidth joined_client = 2048" "worldHeight joined_client = 2048"
  "avatarSize joined_client = 32" "worldImage joined_client \<noteq> None"
  by (simp_all add: joined_client_def handleServerMessage_def Let_def drawWorld_fields
        centerCameraOnMyAvatar_fields loadAvatarImages_fields log_def connected_client_def
        new_GameClient_def)

lemma joined_client_camera:
  "cameraX joined_client = Fin 600" "cameraY joined_client = Fin 700"
  by (simp_all add: joined_client_def handleServerMessage_def Let_def drawWorld_fields
        drawWorld_camera centerCameraOnMyAvatar_fields loadAvatarImages_fields log_def
        connected_client_def new_GameClient_def centerCameraOnMyAvatar_def robert_def
        to_number_def js_sub_def Math_max_def Math_min_def fl_int)

lemma joined_client_images:
  "loadedAvatarImages joined_client =
     [(''knight'', [(''north'', [Image ''n0'', Image ''n1'']),
                   (''south'', [Image ''s0'', Image ''s1'']),
                   (''east'', [Image ''e0'', Image ''e1''])])]"
  by (simp add: joined_client_def handleServerMessage_def Let_def drawWorld_fields
        centerCameraOnMyAvatar_fields log_def loadAvatarImages_def knight_def
        connected_client_def new_GameClient_def)

lemma odd_width_client_camera:
  "cameraX odd_width_client = Fin (1199 / 2)" "cameraY odd_width_client = Fin 700"
  by (simp_all add: odd_width_client_def handleServerMessage_def Let_def drawWorld_fields
        drawWorld_camera centerCameraOnMyAvatar_fields loadAvatarImages_fields log_def
        new_GameClient_def centerCameraOnMyAvatar_def robert_def
        to_number_def js_sub_def Math_max_def Math_min_def fl_int fl_half)

section \<open>The input loop\<close>

text \<open>
  No method assigns \<^verbatim>\<open>true\<close> to \<^verbatim>\<open>isMoving\<close>: the constructor sets it to \<^verbatim>\<open>false\<close> and
  \<open>checkMovementState\<close> sets it to \<^verbatim>\<open>false\<close> again. The branch of \<open>checkMovementState\<close>
  that stops the interval and sends the stop command is guarded by \<^verbatim>\<open>isMoving\<close>, so no
  run of the input loop from a fresh client takes it.
\<close>

lemma step_stays_idle:
  assumes "\<not> isMoving s"
  shows "\<not> isMoving (step s e)"
proof (cases e)
  case (KeyDown code)
  with assms show ?thesis
    by (simp add: handleKeyDown_def drawWorld_fields centerCameraOnMyAvatar_fields
          startContinuousMovement_def sendMoveCommand_def log_def split: option.split)
next
  case (KeyUp code)
  with assms show ?thesis
    by (simp add: handleKeyUp_def checkMovementState_def split: option.split)
next
  case Tick
  with assms show ?thesis
    by (simp add: movementTick_def sendMoveCommand_def log_def split: option.split list.split)
qed

lemma step_sends_no_stop:
  assumes "\<not> isMoving s" and "Stop \<notin> set (sent s)"
  shows "Stop \<notin> set (sent (step s e))"
proof (cases e)
  case (KeyDown code)
  with assms show ?thesis
    by (simp add: handleKeyDown_def drawWorld_fields centerCameraOnMyAvatar_fields
          startContinuousMovement_def sendMoveCommand_def log_def split: option.split)
next
  case (KeyUp code)
  with assms show ?thesis
    by (simp add: handleKeyUp_def checkMovementState_def split: option.split)
next
  case Tick
  with assms show ?thesis
    by (simp add: movementTick_def sendMoveCommand_def log_def split: option.split list.split)
qed

lemma step_keeps_interval:
  assumes "\<not> isMoving s" and "movementInterval s \<noteq> None"
  shows "movementInterval (step s e) \<noteq> None"
proof (cases e)
  case (KeyDown code)
  with assms show ?thesis
    by (simp add: handleKeyDown_def drawWorld_fields centerCameraOnMyAvatar_fields
          startContinuousMovement_def sendMoveCommand_def log_def split: option.split)
next
  case (KeyUp code)
  with assms show ?thesis
    by (simp add: handleKeyUp_def checkMovementState_def split: option.split)
next
  case Tick
  with assms show ?thesis
    by (simp add: movementTick_def sendMoveCommand_def log_def split: option.split list.split)
qed

text \<open>
  Whatever the keys and ticks, a client that starts with \<^verbatim>\<open>isMoving\<close> false never sends
  a stop command, and an interval that was started keeps running.
\<close>

lemma run_never_stops:
  "\<not> isMoving s \<Longrightarrow> Stop \<notin> set (sent s) \<Longrightarrow>
   \<not> isMoving (run evs s) \<and> Stop \<notin> set (sent (run evs s))"
  unfolding run_def
proof (induction evs arbitrary: s)
  case Nil
  then show ?case by simp
next
  case (Cons e evs)
  from Cons.prems have "\<not> isMoving (step s e)" and "Stop \<notin> set (sent (step s e))"
    by (simp_all add: step_stays_idle step_sends_no_stop)
  then show ?case
    using Cons.IH [of "step s e"] by simp
qed

lemma run_keeps_interval:
  "\<not> isMoving s \<Longrightarrow> movementInterval s \<noteq> None \<Longrightarrow> movementInterval (run evs s) \<noteq> None"
  unfolding run_def
proof (induction evs arbitrary: s)
  case Nil
  then show ?case by simp
next
  case (Cons e evs)
  from Cons.prems have "\<not> isMoving (step s e)" and "movementInterval (step s e) \<noteq> None"
    by (simp_all add: step_stays_idle step_keeps_interval)
  then show ?case
    using Cons.IH [of "step s e"] by simp
qed

text \<open>
  C1. A run that starts in Idle, presses one movement key and releases it should send one
  move command and then one stop command, and stop the interval on the key-up. On the
  code it does not: with the socket open, pressing and releasing \<^verbatim>\<open>ArrowUp\<close> on a fresh
  client sends the move command only, and leaves the key set empty with the interval still
  set.
\<close>

theorem single_key_run_sends_no_stop:
  "sent (run [KeyDown ''ArrowUp'', KeyUp ''ArrowUp''] connected_client) = [Move ''up''] \<and>
   movementInterval (run [KeyDown ''ArrowUp'', KeyUp ''ArrowUp''] connected_client) = Some 1 \<and>
   pressedKeys (run [KeyDown ''ArrowUp'', KeyUp ''ArrowUp''] connected_client) = []"
  by (simp add: run_def connected_client_def new_GameClient_def handleKeyDown_def handleKeyUp_def
        keyMap_def sendMoveCommand_def startContinuousMovement_def checkMovementState_def log_def)

section \<open>The player store\<close>

lemma map_of_Object_assign_other:
  "k \<notin> fst ` set source \<Longrightarrow> map_of (Object_assign target source) k = map_of target k"
  unfolding Object_assign_def
proof (induction source arbitrary: target)
  case Nil
  show ?case by simp
next
  case (Cons a source)
  obtain k' v where a: "a = (k', v)" by (cases a)
  from Cons.prems a have "k \<noteq> k'" and rest: "k \<notin> fst ` set source" by auto
  have "map_of (fold (\<lambda>(k, v). AList.update k v) (a # source) target) k =
        map_of (fold (\<lambda>(k, v). AList.update k v) source (AList.update k' v target)) k"
    by (simp add: a)
  also have "\<dots> = map_of (AList.update k' v target) k"
    by (rule Cons.IH [OF rest])
  also have "\<dots> = map_of target k"
    using \<open>k \<noteq> k'\<close> by (simp add: update_conv')
  finally show ?case .
qed

lemma map_of_Object_assign_present:
  "distinct (map fst source) \<Longrightarrow> map_of source k = Some v \<Longrightarrow>
   map_of (Object_assign target source) k = Some v"
proof (induction source arbitrary: target)
  case Nil
  then show ?case by simp
next
  case (Cons a source)
  obtain k' v' where a: "a = (k', v')" by (cases a)
  have unfold: "Object_assign target (a # source) = Object_assign (AList.update k' v' target) source"
    by (simp add: Object_assign_def a)
  show ?case
  proof (cases "k = k'")
    case True
    with Cons.prems a have "v' = v" and "k \<notin> fst ` set source" by auto
    then show ?thesis
      using True by (simp add: unfold map_of_Object_assign_other update_conv')
  next
    case False
    with Cons.prems a have "distinct (map fst source)" and "map_of source k = Some v" by auto
    then show ?thesis
      by (simp add: unfold Cons.IH)
  qed
qed

lemma players_moved_players:
  "players (handleServerMessage (PlayersMoved ps) s) = Object_assign (players s) ps"
  by (simp add: handleServerMessage_def Let_def log_def drawWorld_fields
        centerCameraOnMyAvatar_fields)

text \<open>
  C2, as stated: a players-moved update merges the supplied fields into the stored player
  and keeps every field that the update does not carry. It fails on the code: the update
  for \<^verbatim>\<open>p1\<close> below carries no username, the stored player has the username \<^verbatim>\<open>Robert\<close>,
  and after the update the stored player has none.
\<close>

theorem players_moved_drops_absent_fields:
  "p_username moved_robert = None \<and>
   map_option p_username (map_of (players joined_client) ''p1'') = Some (Some ''Robert'') \<and>
   map_option p_username
     (map_of (players (handleServerMessage (PlayersMoved [(''p1'', moved_robert)]) joined_client))
        ''p1'')
     = Some None"
  by (simp add: players_moved_players joined_client_store Object_assign_def
        moved_robert_def robert_def)

text \<open>
  C2, amended: for every players-moved message and every player id present in the update,
  the stored player becomes the update's player object as a whole. The merge is over the
  mapping from ids to players, not over the fields of one player. (An object holds each
  id once, hence \<open>distinct\<close>.)
\<close>

theorem players_moved_replaces_entry:
  "distinct (map fst ps) \<Longrightarrow> map_of ps pid = Some p \<Longrightarrow>
   map_of (players (handleServerMessage (PlayersMoved ps) s)) pid = Some p"
  by (simp add: players_moved_players map_of_Object_assign_present)

text \<open>The amended C2 on the sample update.\<close>

theorem players_moved_replaces_entry_witness:
  "distinct (map fst [(''p1'', moved_robert)]) \<and>
   map_of [(''p1'', moved_robert)] ''p1'' = Some moved_robert \<and>
   map_of (players (handleServerMessage (PlayersMoved [(''p1'', moved_robert)]) joined_client))
     ''p1'' = Some moved_robert"
  using players_moved_replaces_entry
          [of "[(''p1'', moved_robert)]" "''p1''" moved_robert joined_client]
  by simp

text \<open>
  C9. For every players-moved message and every player id that the update does not
  include, the store holds the same player for that id after the update as before.
\<close>

theorem players_moved_keeps_others:
  "pid \<notin> fst ` set ps \<Longrightarrow>
   map_of (players (handleServerMessage (PlayersMoved ps) s)) pid = map_of (players s) pid"
  by (simp add: players_moved_players map_of_Object_assign_other)

text \<open>C9 on the sample update: the second player is untouched.\<close>

theorem players_moved_keeps_others_witness:
  "''p2'' \<notin> fst ` set [(''p1'', moved_robert)] \<and>
   map_of (players (handleServerMessage (PlayersMoved [(''p1'', moved_robert)]) joined_client))
     ''p2'' = Some anna"
  using players_moved_keeps_others [of "''p2''" "[(''p1'', moved_robert)]" joined_client]
  by (simp add: joined_client_store)

section \<open>The camera\<close>

lemma drawWorld_in_bounds:
  assumes "worldImage s \<noteq> None" and "cameraX s \<noteq> NaN" and "cameraY s \<noteq> NaN"
  shows "camera_in_bounds (drawWorld s)"
proof -
  have w: "js_sub (Fin (worldWidth s)) (Fin (real (unat (canvas_width s)))) \<noteq> NaN"
    and h: "js_sub (Fin (worldHeight s)) (Fin (real (unat (canvas_height s)))) \<noteq> NaN"
    by (simp_all add: js_sub_Fin_not_NaN)
  show ?thesis
    unfolding camera_in_bounds_def
    using clamp_bounds [OF assms(2) w] clamp_bounds [OF assms(3) h]
    by (simp only: drawWorld_camera [OF assms(1)] drawWorld_fields simp_thms)
qed

lemma half_of_canvas_unsigned:
  "js_div2 (Fin (unsigned (w :: 32 word))) = Fin (unsigned w / 2)"
  using half_of_canvas [of w] by (simp only: of_nat_unat)

text \<open>Centering on a player whose position is a number gives a camera that is a number.\<close>

lemma centered_camera_is_number:
  assumes "myPlayerId s = Some pid" and "pid \<noteq> []" and "map_of (players s) pid = Some p"
    and "to_number (p_x p) \<noteq> NaN" and "to_number (p_y p) \<noteq> NaN"
  shows "cameraX (centerCameraOnMyAvatar s) \<noteq> NaN"
    and "cameraY (centerCameraOnMyAvatar s) \<noteq> NaN"
  using assms
  by (simp_all add: centerCameraOnMyAvatar_def half_of_canvas_unsigned js_sub_not_NaN_Fin
        del: js_div2.simps)

text \<open>
  The constructor creates the world image before any listener is registered, and no
  listener clears it, so \<open>drawWorld\<close> never takes its early return.
\<close>

lemma worldImage_kept:
  "worldImage (new_GameClient w h) \<noteq> None"
  "worldImage (handleServerMessage m s) = worldImage s"
  "worldImage (step s e) = worldImage s"
  "worldImage (onMouseDown x y s) = worldImage s"
  "worldImage (onMouseMove x y s) = worldImage s"
  "worldImage (onMouseUp s) = worldImage s"
proof -
  show "worldImage (new_GameClient w h) \<noteq> None"
    by (simp add: new_GameClient_def)
  show "worldImage (handleServerMessage m s) = worldImage s"
    by (cases m)
       (simp_all add: handleServerMessage_def Let_def drawWorld_fields
          centerCameraOnMyAvatar_fields loadAvatarImages_fields log_def log_error_def)
  show "worldImage (step s e) = worldImage s"
    by (cases e)
       (simp_all add: handleKeyDown_def handleKeyUp_def movementTick_def checkMovementState_def
          sendMoveCommand_def sendStopCommand_def startContinuousMovement_def
          stopContinuousMovement_def drawWorld_fields centerCameraOnMyAvatar_fields log_def
          Let_def split: option.split list.split)
  show "worldImage (onMouseDown x y s) = worldImage s"
    by (simp add: onMouseDown_def)
  show "worldImage (onMouseMove x y s) = worldImage s"
    by (simp add: onMouseMove_def Let_def drawWorld_fields)
  show "worldImage (onMouseUp s) = worldImage s"
    by (simp add: onMouseUp_def)
qed

text \<open>
  C3, as stated: every camera position produced by centering on the local player or by
  drag-panning satisfies \<open>0 \<le> camera.x \<le> max(0, worldWidth - viewportWidth)\<close>, and the
  same for y. It fails on the code when the local player has no position. After the join,
  a players-moved update for \<^verbatim>\<open>p1\<close> that carries a facing only replaces the stored player;
  centering then computes \<^verbatim>\<open>undefined - 400\<close>, which is \<^verbatim>\<open>NaN\<close>, the clamp of
  \<open>drawWorld\<close> keeps \<^verbatim>\<open>NaN\<close>, and \<^verbatim>\<open>0 <= NaN\<close> is false.
\<close>

theorem camera_NaN_counterexample:
  "myPlayerId joined_client = Some ''p1'' \<and>
   p_x turned_robert = None \<and> p_y turned_robert = None \<and>
   cameraX (handleServerMessage (PlayersMoved [(''p1'', turned_robert)]) joined_client) = NaN \<and>
   cameraY (handleServerMessage (PlayersMoved [(''p1'', turned_robert)]) joined_client) = NaN \<and>
   \<not> camera_in_bounds
        (handleServerMessage (PlayersMoved [(''p1'', turned_robert)]) joined_client)"
proof -
  have x: "cameraX (handleServerMessage (PlayersMoved [(''p1'', turned_robert)]) joined_client) = NaN"
    by (simp add: handleServerMessage_def Let_def log_def drawWorld_camera drawWorld_fields
          centerCameraOnMyAvatar_fields centerCameraOnMyAvatar_def joined_client_store
          joined_client_size Object_assign_def turned_robert_def to_number_def js_sub_def
          Math_max_def Math_min_def)
  have y: "cameraY (handleServerMessage (PlayersMoved [(''p1'', turned_robert)]) joined_client) = NaN"
    by (simp add: handleServerMessage_def Let_def log_def drawWorld_camera drawWorld_fields
          centerCameraOnMyAvatar_fields centerCameraOnMyAvatar_def joined_client_store
          joined_client_size Object_assign_def turned_robert_def to_number_def js_sub_def
          Math_max_def Math_min_def)
  have p: "p_x turned_robert = None" "p_y turned_robert = None"
    by (simp_all add: turned_robert_def)
  show ?thesis
    by (simp add: x y p camera_in_bounds_def joined_client_store)
qed

text \<open>
  C3, amended: every camera position produced by centering on a local player whose
  \<^verbatim>\<open>x\<close> and \<^verbatim>\<open>y\<close> are numbers (present and not \<^verbatim>\<open>NaN\<close>), or by drag-panning a camera
  that is a finite number, satisfies \<open>0 \<le> camera.x \<le> max(0, worldWidth - viewportWidth)\<close>
  and the same for y. Every call of \<open>centerCameraOnMyAvatar\<close> is followed by
  \<open>drawWorld\<close>, which clamps: in the recentre key, in the join result and in the
  players-moved update, where the local player is the one stored once the message is
  applied. The drag listener subtracts the pointer delta and calls \<open>drawWorld\<close> too.
\<close>

theorem camera_stays_in_bounds:
  "worldImage s \<noteq> None \<Longrightarrow>
   (myPlayerId s = Some pid \<and> pid \<noteq> [] \<and> map_of (players s) pid = Some p \<and>
    to_number (p_x p) \<noteq> NaN \<and> to_number (p_y p) \<noteq> NaN \<longrightarrow>
      camera_in_bounds (drawWorld (centerCameraOnMyAvatar s)) \<and>
      camera_in_bounds (handleKeyDown ''KeyC'' s)) \<and>
   (pid \<noteq> [] \<and> map_of ps pid = Some p \<and>
    to_number (p_x p) \<noteq> NaN \<and> to_number (p_y p) \<noteq> NaN \<longrightarrow>
      camera_in_bounds (handleServerMessage (JoinGame True (Some pid) ps avs) s)) \<and>
   (myPlayerId s = Some pid \<and> pid \<noteq> [] \<and>
    map_of (Object_assign (players s) ps) pid = Some p \<and>
    to_number (p_x p) \<noteq> NaN \<and> to_number (p_y p) \<noteq> NaN \<longrightarrow>
      camera_in_bounds (handleServerMessage (PlayersMoved ps) s)) \<and>
   (isDragging s \<and> cameraX s = Fin cx \<and> cameraY s = Fin cy \<and>
    lastMouseX s = Fin lx \<and> lastMouseY s = Fin ly \<longrightarrow>
      camera_in_bounds (onMouseMove (Fin mx) (Fin my) s))"
proof (intro conjI impI)
  assume w: "worldImage s \<noteq> None"
  {
    fix t :: client
    assume t: "worldImage t \<noteq> None" "myPlayerId t = Some pid" "pid \<noteq> []"
      "map_of (players t) pid = Some p" "to_number (p_x p) \<noteq> NaN" "to_number (p_y p) \<noteq> NaN"
    have "camera_in_bounds (drawWorld (centerCameraOnMyAvatar t))"
      using t centered_camera_is_number [of t pid p]
      by (intro drawWorld_in_bounds) (simp_all add: centerCameraOnMyAvatar_fields)
  } note centred = this
  {
    assume a: "myPlayerId s = Some pid \<and> pid \<noteq> [] \<and> map_of (players s) pid = Some p \<and>
      to_number (p_x p) \<noteq> NaN \<and> to_number (p_y p) \<noteq> NaN"
    with w show c: "camera_in_bounds (drawWorld (centerCameraOnMyAvatar s))"
      by (intro centred) simp_all
    then show "camera_in_bounds (handleKeyDown ''KeyC'' s)"
      by (simp add: handleKeyDown_def)
  }
  {
    assume a: "pid \<noteq> [] \<and> map_of ps pid = Some p \<and>
      to_number (p_x p) \<noteq> NaN \<and> to_number (p_y p) \<noteq> NaN"
    show "camera_in_bounds (handleServerMessage (JoinGame True (Some pid) ps avs) s)"
      unfolding handleServerMessage_def Let_def message.case if_True
      using a w
      by (intro centred) (simp_all add: loadAvatarImages_fields log_def)
  }
  {
    assume a: "myPlayerId s = Some pid \<and> pid \<noteq> [] \<and>
      map_of (Object_assign (players s) ps) pid = Some p \<and>
      to_number (p_x p) \<noteq> NaN \<and> to_number (p_y p) \<noteq> NaN"
    show "camera_in_bounds (handleServerMessage (PlayersMoved ps) s)"
      unfolding handleServerMessage_def Let_def message.case
      using a w
      by (intro centred) (simp_all add: log_def)
  }
  {
    assume a: "isDragging s \<and> cameraX s = Fin cx \<and> cameraY s = Fin cy \<and>
      lastMouseX s = Fin lx \<and> lastMouseY s = Fin ly"
    have d: "js_sub (Fin mx) (Fin lx) \<noteq> NaN" "js_sub (Fin my) (Fin ly) \<noteq> NaN"
      by (simp_all add: js_sub_Fin_not_NaN)
    show "camera_in_bounds (onMouseMove (Fin mx) (Fin my) s)"
      using a w d by (simp add: onMouseMove_def Let_def drawWorld_in_bounds js_sub_Fin_not_NaN)
  }
qed

text \<open>
  The amended C3 on the joined sample client: the recentre key, and a drag far to the left
  and slightly down, which the clamp stops at the world's edge.
\<close>

theorem camera_stays_in_bounds_witness:
  "worldImage joined_client \<noteq> None \<and>
   myPlayerId joined_client = Some ''p1'' \<and>
   map_of (players joined_client) ''p1'' = Some robert \<and>
   to_number (p_x robert) \<noteq> NaN \<and> to_number (p_y robert) \<noteq> NaN \<and>
   camera_in_bounds (handleKeyDown ''KeyC'' joined_client) \<and>
   isDragging (onMouseDown (Fin 5) (Fin 5) joined_client) \<and>
   camera_in_bounds (onMouseMove (Fin (- 5000)) (Fin 40) (onMouseDown (Fin 5) (Fin 5) joined_client)) \<and>
   cameraX (onMouseMove (Fin (- 5000)) (Fin 40) (onMouseDown (Fin 5) (Fin 5) joined_client))
     = Fin 1248 \<and>
   cameraY (onMouseMove (Fin (- 5000)) (Fin 40) (onMouseDown (Fin 5) (Fin 5) joined_client))
     = Fin 665"
  using camera_stays_in_bounds [where s = joined_client and pid = "''p1''" and p = robert]
    camera_stays_in_bounds [where s = "onMouseDown (Fin 5) (Fin 5) joined_client"
      and cx = 600 and cy = 700 and lx = 5 and ly = 5 and mx = "- 5000" and my = 40]
  by (simp add: joined_client_store joined_client_size joined_client_camera onMouseDown_def
        onMouseMove_def Let_def drawWorld_camera robert_def to_number_def js_sub_def
        Math_max_def Math_min_def fl_int)

lemma exact_center:
  assumes "px \<in> \<int>" and "\<bar>px\<bar> \<le> 2 ^ 51"
  shows "js_sub (Fin px) (js_div2 (Fin (real (unat (w :: 32 word))))) = Fin (px - real (unat w) / 2)"
proof -
  define r where "r = real (unat w)"
  have nn: "0 \<le> r" unfolding r_def by (rule of_nat_0_le_iff)
  have int: "r \<in> \<int>" unfolding r_def by (rule Ints_of_nat)
  have "unat w < 2 ^ 32"
    using unsigned_less [of w, where ?'a = nat] by simp
  then have small: "r < 2 ^ 32"
    unfolding r_def by (metis of_nat_less_iff of_nat_numeral of_nat_power)
  have "(px - r / 2) * 2 = px * 2 - r" by (simp add: algebra_simps)
  then have i: "(px - r / 2) * 2 \<in> \<int>"
    using assms(1) int by simp
  have "\<bar>px - r / 2\<bar> * 2 \<le> \<bar>px\<bar> * 2 + r"
    using nn by (simp add: abs_if)
  also have "\<dots> < 2 ^ 53"
    using assms(2) small by simp
  finally have f: "fl (px - r / 2) = Fin (px - r / 2)"
    using i by (intro fl_half) simp_all
  have h: "js_div2 (Fin r) = Fin (r / 2)"
    unfolding r_def by (rule half_of_canvas)
  have "js_sub (Fin px) (js_div2 (Fin r)) = fl (px - r / 2)"
    by (simp add: h js_sub_def del: js_div2.simps)
  with f show ?thesis
    unfolding r_def by (simp only:)
qed

lemma exact_margin:
  assumes "W \<in> \<int>" and "\<bar>W\<bar> \<le> 2 ^ 51"
  shows "js_sub (Fin W) (Fin (real (unat (w :: 32 word)))) = Fin (W - real (unat w))"
proof -
  define r where "r = real (unat w)"
  have nn: "0 \<le> r" unfolding r_def by (rule of_nat_0_le_iff)
  have int: "r \<in> \<int>" unfolding r_def by (rule Ints_of_nat)
  have "unat w < 2 ^ 32"
    using unsigned_less [of w, where ?'a = nat] by simp
  then have small: "r < 2 ^ 32"
    unfolding r_def by (metis of_nat_less_iff of_nat_numeral of_nat_power)
  have i: "W - r \<in> \<int>" using assms(1) int by simp
  have "\<bar>W - r\<bar> \<le> \<bar>W\<bar> + r"
    using nn by (simp add: abs_if)
  also have "\<dots> < 2 ^ 53"
    using assms(2) small by simp
  finally have "fl (W - r) = Fin (W - r)"
    using i by (intro fl_int) simp_all
  then show ?thesis
    unfolding r_def [symmetric] by (simp add: js_sub_def)
qed

lemma clamp_Fin:
  "Math_max (Fin 0) (Math_min (Fin c) (Fin b)) = Fin (max 0 (min c b))"
  by (simp add: Math_max_def Math_min_def max_def min_def)

text \<open>
  C5. With a local player at \<open>(p_x, p_y)\<close>, centering sets the camera to the player's
  position minus half the viewport, per axis, and the draw that follows clamps each axis
  to \<open>[0, worldSize - viewportSize]\<close>. The subtraction is JavaScript's; on integer
  positions and an integer world size up to \<open>2 ^ 51\<close> it is exact. After a successful join
  with the local player at (1000, 1000) in an 800 by 600 viewport and the 2048 by 2048
  world, the camera is (600, 700).
\<close>

theorem center_then_clamp:
  "(myPlayerId s = Some pid \<and> pid \<noteq> [] \<and> map_of (players s) pid = Some p \<and>
    worldImage s \<noteq> None \<longrightarrow>
      cameraX (centerCameraOnMyAvatar s) =
        js_sub (to_number (p_x p)) (js_div2 (Fin (real (unat (canvas_width s))))) \<and>
      cameraY (centerCameraOnMyAvatar s) =
        js_sub (to_number (p_y p)) (js_div2 (Fin (real (unat (canvas_height s))))) \<and>
      cameraX (drawWorld (centerCameraOnMyAvatar s)) =
        Math_max (Fin 0)
          (Math_min (js_sub (to_number (p_x p)) (js_div2 (Fin (real (unat (canvas_width s))))))
             (js_sub (Fin (worldWidth s)) (Fin (real (unat (canvas_width s)))))) \<and>
      cameraY (drawWorld (centerCameraOnMyAvatar s)) =
        Math_max (Fin 0)
          (Math_min (js_sub (to_number (p_y p)) (js_div2 (Fin (real (unat (canvas_height s))))))
             (js_sub (Fin (worldHeight s)) (Fin (real (unat (canvas_height s)))))) \<and>
      (p_x p = Some (Fin px) \<and> px \<in> \<int> \<and> \<bar>px\<bar> \<le> 2 ^ 51 \<and>
       worldWidth s \<in> \<int> \<and> \<bar>worldWidth s\<bar> \<le> 2 ^ 51 \<longrightarrow>
         cameraX (centerCameraOnMyAvatar s) = Fin (px - real (unat (canvas_width s)) / 2) \<and>
         cameraX (drawWorld (centerCameraOnMyAvatar s)) =
           Fin (max 0 (min (px - real (unat (canvas_width s)) / 2)
                         (worldWidth s - real (unat (canvas_width s)))))) \<and>
      (p_y p = Some (Fin py) \<and> py \<in> \<int> \<and> \<bar>py\<bar> \<le> 2 ^ 51 \<and>
       worldHeight s \<in> \<int> \<and> \<bar>worldHeight s\<bar> \<le> 2 ^ 51 \<longrightarrow>
         cameraY (centerCameraOnMyAvatar s) = Fin (py - real (unat (canvas_height s)) / 2) \<and>
         cameraY (drawWorld (centerCameraOnMyAvatar s)) =
           Fin (max 0 (min (py - real (unat (canvas_height s)) / 2)
                         (worldHeight s - real (unat (canvas_height s))))))) \<and>
   cameraX (handleServerMessage (JoinGame True (Some ''p1'') [(''p1'', robert)] [])
              (new_GameClient 800 600)) = Fin 600 \<and>
   cameraY (handleServerMessage (JoinGame True (Some ''p1'') [(''p1'', robert)] [])
              (new_GameClient 800 600)) = Fin 700"
proof (intro conjI)
  show "myPlayerId s = Some pid \<and> pid \<noteq> [] \<and> map_of (players s) pid = Some p \<and>
    worldImage s \<noteq> None \<longrightarrow>
      cameraX (centerCameraOnMyAvatar s) =
        js_sub (to_number (p_x p)) (js_div2 (Fin (real (unat (canvas_width s))))) \<and>
      cameraY (centerCameraOnMyAvatar s) =
        js_sub (to_number (p_y p)) (js_div2 (Fin (real (unat (canvas_height s))))) \<and>
      cameraX (drawWorld (centerCameraOnMyAvatar s)) =
        Math_max (Fin 0)
          (Math_min (js_sub (to_number (p_x p)) (js_div2 (Fin (real (unat (canvas_width s))))))
             (js_sub (Fin (worldWidth s)) (Fin (real (unat (canvas_width s)))))) \<and>
      cameraY (drawWorld (centerCameraOnMyAvatar s)) =
        Math_max (Fin 0)
          (Math_min (js_sub (to_number (p_y p)) (js_div2 (Fin (real (unat (canvas_height s))))))
             (js_sub (Fin (worldHeight s)) (Fin (real (unat (canvas_height s)))))) \<and>
      (p_x p = Some (Fin px) \<and> px \<in> \<int> \<and> \<bar>px\<bar> \<le> 2 ^ 51 \<and>
       worldWidth s \<in> \<int> \<and> \<bar>worldWidth s\<bar> \<le> 2 ^ 51 \<longrightarrow>
         cameraX (centerCameraOnMyAvatar s) = Fin (px - real (unat (canvas_width s)) / 2) \<and>
         cameraX (drawWorld (centerCameraOnMyAvatar s)) =
           Fin (max 0 (min (px - real (unat (canvas_width s)) / 2)
                         (worldWidth s - real (unat (canvas_width s)))))) \<and>
      (p_y p = Some (Fin py) \<and> py \<in> \<int> \<and> \<bar>py\<bar> \<le> 2 ^ 51 \<and>
       worldHeight s \<in> \<int> \<and> \<bar>worldHeight s\<bar> \<le> 2 ^ 51 \<longrightarrow>
         cameraY (centerCameraOnMyAvatar s) = Fin (py - real (unat (canvas_height s)) / 2) \<and>
         cameraY (drawWorld (centerCameraOnMyAvatar s)) =
           Fin (max 0 (min (py - real (unat (canvas_height s)) / 2)
                         (worldHeight s - real (unat (canvas_height s))))))"
  proof (intro impI)
    assume a: "myPlayerId s = Some pid \<and> pid \<noteq> [] \<and> map_of (players s) pid = Some p \<and>
      worldImage s \<noteq> None"
    then have w: "worldImage (centerCameraOnMyAvatar s) \<noteq> None"
      by (simp add: centerCameraOnMyAvatar_fields)
    from a have cx: "cameraX (centerCameraOnMyAvatar s) =
        js_sub (to_number (p_x p)) (js_div2 (Fin (real (unat (canvas_width s)))))"
      by (simp add: centerCameraOnMyAvatar_def del: js_div2.simps of_nat_unat)
    from a have cy: "cameraY (centerCameraOnMyAvatar s) =
        js_sub (to_number (p_y p)) (js_div2 (Fin (real (unat (canvas_height s)))))"
      by (simp add: centerCameraOnMyAvatar_def del: js_div2.simps of_nat_unat)
    have dx: "cameraX (drawWorld (centerCameraOnMyAvatar s)) =
        Math_max (Fin 0)
          (Math_min (js_sub (to_number (p_x p)) (js_div2 (Fin (real (unat (canvas_width s))))))
             (js_sub (Fin (worldWidth s)) (Fin (real (unat (canvas_width s))))))"
      by (simp only: drawWorld_camera [OF w] cx centerCameraOnMyAvatar_fields)
    have dy: "cameraY (drawWorld (centerCameraOnMyAvatar s)) =
        Math_max (Fin 0)
          (Math_min (js_sub (to_number (p_y p)) (js_div2 (Fin (real (unat (canvas_height s))))))
             (js_sub (Fin (worldHeight s)) (Fin (real (unat (canvas_height s))))))"
      by (simp only: drawWorld_camera [OF w] cy centerCameraOnMyAvatar_fields)
    have ex: "cameraX (centerCameraOnMyAvatar s) = Fin (px - real (unat (canvas_width s)) / 2) \<and>
         cameraX (drawWorld (centerCameraOnMyAvatar s)) =
           Fin (max 0 (min (px - real (unat (canvas_width s)) / 2)
                         (worldWidth s - real (unat (canvas_width s)))))"
      if "p_x p = Some (Fin px) \<and> px \<in> \<int> \<and> \<bar>px\<bar> \<le> 2 ^ 51 \<and>
       worldWidth s \<in> \<int> \<and> \<bar>worldWidth s\<bar> \<le> 2 ^ 51"
      using that
      by (simp only: cx dx to_number_def option.case exact_center exact_margin clamp_Fin simp_thms)
    have ey: "cameraY (centerCameraOnMyAvatar s) = Fin (py - real (unat (canvas_height s)) / 2) \<and>
         cameraY (drawWorld (centerCameraOnMyAvatar s)) =
           Fin (max 0 (min (py - real (unat (canvas_height s)) / 2)
                         (worldHeight s - real (unat (canvas_height s)))))"
      if "p_y p = Some (Fin py) \<and> py \<in> \<int> \<and> \<bar>py\<bar> \<le> 2 ^ 51 \<and>
       worldHeight s \<in> \<int> \<and> \<bar>worldHeight s\<bar> \<le> 2 ^ 51"
      using that
      by (simp only: cy dy to_number_def option.case exact_center exact_margin clamp_Fin simp_thms)
    from cx cy dx dy ex ey show "cameraX (centerCameraOnMyAvatar s) =
        js_sub (to_number (p_x p)) (js_div2 (Fin (real (unat (canvas_width s))))) \<and>
      cameraY (centerCameraOnMyAvatar s) =
        js_sub (to_number (p_y p)) (js_div2 (Fin (real (unat (canvas_height s))))) \<and>
      cameraX (drawWorld (centerCameraOnMyAvatar s)) =
        Math_max (Fin 0)
          (Math_min (js_sub (to_number (p_x p)) (js_div2 (Fin (real (unat (canvas_width s))))))
             (js_sub (Fin (worldWidth s)) (Fin (real (unat (canvas_width s)))))) \<and>
      cameraY (drawWorld (centerCameraOnMyAvatar s)) =
        Math_max (Fin 0)
          (Math_min (js_sub (to_number (p_y p)) (js_div2 (Fin (real (unat (canvas_height s))))))
             (js_sub (Fin (worldHeight s)) (Fin (real (unat (canvas_height s)))))) \<and>
      (p_x p = Some (Fin px) \<and> px \<in> \<int> \<and> \<bar>px\<bar> \<le> 2 ^ 51 \<and>
       worldWidth s \<in> \<int> \<and> \<bar>worldWidth s\<bar> \<le> 2 ^ 51 \<longrightarrow>
         cameraX (centerCameraOnMyAvatar s) = Fin (px - real (unat (canvas_width s)) / 2) \<and>
         cameraX (drawWorld (centerCameraOnMyAvatar s)) =
           Fin (max 0 (min (px - real (unat (canvas_width s)) / 2)
                         (worldWidth s - real (unat (canvas_width s)))))) \<and>
      (p_y p = Some (Fin py) \<and> py \<in> \<int> \<and> \<bar>py\<bar> \<le> 2 ^ 51 \<and>
       worldHeight s \<in> \<int> \<and> \<bar>worldHeight s\<bar> \<le> 2 ^ 51 \<longrightarrow>
         cameraY (centerCameraOnMyAvatar s) = Fin (py - real (unat (canvas_height s)) / 2) \<and>
         cameraY (drawWorld (centerCameraOnMyAvatar s)) =
           Fin (max 0 (min (py - real (unat (canvas_height s)) / 2)
                         (worldHeight s - real (unat (canvas_height s))))))"
      by blast
  qed
next
  show "cameraX (handleServerMessage (JoinGame True (Some ''p1'') [(''p1'', robert)] [])
              (new_GameClient 800 600)) = Fin 600"
    by (simp add: handleServerMessage_def Let_def drawWorld_fields drawWorld_camera
        centerCameraOnMyAvatar_fields loadAvatarImages_fields log_def new_GameClient_def
        centerCameraOnMyAvatar_def robert_def to_number_def js_sub_def Math_max_def
        Math_min_def fl_int)
next
  show "cameraY (handleServerMessage (JoinGame True (Some ''p1'') [(''p1'', robert)] [])
              (new_GameClient 800 600)) = Fin 700"
    by (simp add: handleServerMessage_def Let_def drawWorld_fields drawWorld_camera
        centerCameraOnMyAvatar_fields loadAvatarImages_fields log_def new_GameClient_def
        centerCameraOnMyAvatar_def robert_def to_number_def js_sub_def Math_max_def
        Math_min_def fl_int)
qed

text \<open>
  C5 on the sample client after its player moved to the world's origin: centering gives
  (-400, -300), and the clamp brings the camera to (0, 0).
\<close>

theorem center_then_clamp_witness:
  "myPlayerId (joined_client\<lparr>players := [(''p1'', moved_robert)]\<rparr>) = Some ''p1'' \<and>
   ''p1'' \<noteq> [] \<and>
   map_of (players (joined_client\<lparr>players := [(''p1'', moved_robert)]\<rparr>)) ''p1''
     = Some moved_robert \<and>
   worldImage (joined_client\<lparr>players := [(''p1'', moved_robert)]\<rparr>) \<noteq> None \<and>
   cameraX (centerCameraOnMyAvatar (joined_client\<lparr>players := [(''p1'', moved_robert)]\<rparr>))
     = Fin (- 400) \<and>
   cameraY (centerCameraOnMyAvatar (joined_client\<lparr>players := [(''p1'', moved_robert)]\<rparr>))
     = Fin (- 300) \<and>
   cameraX (drawWorld (centerCameraOnMyAvatar
      (joined_client\<lparr>players := [(''p1'', moved_robert)]\<rparr>))) = Fin 0 \<and>
   cameraY (drawWorld (centerCameraOnMyAvatar
      (joined_client\<lparr>players := [(''p1'', moved_robert)]\<rparr>))) = Fin 0"
  using center_then_clamp
          [where s = "joined_client\<lparr>players := [(''p1'', moved_robert)]\<rparr>" and pid = "''p1''"
             and p = moved_robert and px = 0 and py = 0]
  by (simp add: joined_client_store joined_client_size moved_robert_def to_number_def
        js_sub_def Math_max_def Math_min_def fl_int)

text \<open>
  C4, as stated: the click listener's screen-to-world mapping and \<open>worldToScreen\<close> are
  exact inverses for every camera value and coordinate pair. It fails on the code, which
  rounds the world coordinates down. In a window 801 pixels wide the join centres the
  camera at x = 599.5; a click at screen (10, 10) maps to world (609, 710), which
  \<open>worldToScreen\<close> sends to (9.5, 10). In the other direction, the world point
  (0.5, 0) is at screen (-599, -700), which the click mapping sends to world (0, 0).
  Every number here is a double and every sum exact.
\<close>

theorem click_roundtrip_counterexample:
  "cameraX odd_width_client = Fin (1199 / 2) \<and> cameraY odd_width_client = Fin 700 \<and>
   clickToWorld odd_width_client (Fin 10) (Fin 10) = (Fin 609, Fin 710) \<and>
   worldToScreen odd_width_client (Fin 609) (Fin 710) = (Fin (19 / 2), Fin 10) \<and>
   worldToScreen odd_width_client
     (fst (clickToWorld odd_width_client (Fin 10) (Fin 10)))
     (snd (clickToWorld odd_width_client (Fin 10) (Fin 10)))
     \<noteq> (Fin 10, Fin 10) \<and>
   worldToScreen odd_width_client (Fin (1 / 2)) (Fin 0) = (Fin (- 599), Fin (- 700)) \<and>
   clickToWorld odd_width_client
     (fst (worldToScreen odd_width_client (Fin (1 / 2)) (Fin 0)))
     (snd (worldToScreen odd_width_client (Fin (1 / 2)) (Fin 0)))
     \<noteq> (Fin (1 / 2), Fin 0)"
  by (simp add: worldToScreen_def clickToWorld_def odd_width_client_camera Let_def
        js_sub_def fl_int fl_half)

lemma exact_sum:
  assumes "a \<in> \<int>" and "b \<in> \<int>" and "\<bar>a\<bar> < 2 ^ 52" and "\<bar>b\<bar> < 2 ^ 52"
  shows "js_add (Fin a) (Fin b) = Fin (a + b)" and "js_sub (Fin a) (Fin b) = Fin (a - b)"
proof -
  have "\<bar>a + b\<bar> < 2 ^ 53" and "\<bar>a - b\<bar> < 2 ^ 53"
    using assms(3,4) by (simp_all add: abs_if split: if_splits)
  moreover have "a + b \<in> \<int>" and "a - b \<in> \<int>"
    using assms(1,2) by simp_all
  ultimately have "fl (a + b) = Fin (a + b)" and "fl (a - b) = Fin (a - b)"
    by (simp_all add: fl_int)
  then show "js_add (Fin a) (Fin b) = Fin (a + b)" and "js_sub (Fin a) (Fin b) = Fin (a - b)"
    by (simp_all add: js_sub_def)
qed

lemma floor_of_Ints: "r \<in> \<int> \<Longrightarrow> Math_floor (Fin r) = Fin r"
  by (auto simp add: Ints_def)

text \<open>
  C4, amended: for every camera value and every coordinate pair that are integers of
  magnitude below \<open>2 ^ 52\<close>, the click listener's screen-to-world mapping and
  \<open>worldToScreen\<close> are exact inverses: screen to world and back gives the original screen
  coordinates, and world to screen and back gives the original world coordinates.
\<close>

theorem click_roundtrip:
  "cameraX s = Fin cx \<and> cameraY s = Fin cy \<and> cx \<in> \<int> \<and> cy \<in> \<int> \<and>
   \<bar>cx\<bar> < 2 ^ 52 \<and> \<bar>cy\<bar> < 2 ^ 52 \<and>
   x \<in> \<int> \<and> y \<in> \<int> \<and> \<bar>x\<bar> < 2 ^ 52 \<and> \<bar>y\<bar> < 2 ^ 52 \<longrightarrow>
     worldToScreen s (fst (clickToWorld s (Fin x) (Fin y))) (snd (clickToWorld s (Fin x) (Fin y)))
       = (Fin x, Fin y) \<and>
     clickToWorld s (fst (worldToScreen s (Fin x) (Fin y))) (snd (worldToScreen s (Fin x) (Fin y)))
       = (Fin x, Fin y)"
proof (intro impI)
  assume a: "cameraX s = Fin cx \<and> cameraY s = Fin cy \<and> cx \<in> \<int> \<and> cy \<in> \<int> \<and>
   \<bar>cx\<bar> < 2 ^ 52 \<and> \<bar>cy\<bar> < 2 ^ 52 \<and>
   x \<in> \<int> \<and> y \<in> \<int> \<and> \<bar>x\<bar> < 2 ^ 52 \<and> \<bar>y\<bar> < 2 ^ 52"
  have r1: "Math_floor (js_add (Fin v) (Fin c)) = Fin (v + c)"
    and r2: "js_sub (Fin (v + c)) (Fin c) = Fin v"
    and r3: "js_sub (Fin v) (Fin c) = Fin (v - c)"
    and r4: "Math_floor (js_add (Fin (v - c)) (Fin c)) = Fin v"
    if "v \<in> \<int>" "c \<in> \<int>" "\<bar>v\<bar> < 2 ^ 52" "\<bar>c\<bar> < 2 ^ 52" for v c :: real
  proof -
    have sum: "js_add (Fin v) (Fin c) = Fin (v + c)"
      using that by (rule exact_sum)
    have "v + c \<in> \<int>"
      using that by simp
    then show "Math_floor (js_add (Fin v) (Fin c)) = Fin (v + c)"
      by (simp only: sum floor_of_Ints)
    have "fl (v + c - c) = Fin v"
      using that by (simp add: fl_int)
    then show "js_sub (Fin (v + c)) (Fin c) = Fin v"
      by (simp add: js_sub_def)
    show "js_sub (Fin v) (Fin c) = Fin (v - c)"
      using that by (rule exact_sum)
    have "fl (v - c + c) = Fin v"
      using that by (simp add: fl_int)
    then have "js_add (Fin (v - c)) (Fin c) = Fin v"
      by simp
    then show "Math_floor (js_add (Fin (v - c)) (Fin c)) = Fin v"
      using that(1) by (simp only: floor_of_Ints)
  qed
  from a show "worldToScreen s (fst (clickToWorld s (Fin x) (Fin y)))
       (snd (clickToWorld s (Fin x) (Fin y))) = (Fin x, Fin y) \<and>
     clickToWorld s (fst (worldToScreen s (Fin x) (Fin y))) (snd (worldToScreen s (Fin x) (Fin y)))
       = (Fin x, Fin y)"
    by (simp add: worldToScreen_def clickToWorld_def Let_def r1 r2 r3 r4
          del: Math_floor.simps js_add.simps)
qed

text \<open>The amended C4 on the sample client, whose camera is (600, 700).\<close>

theorem click_roundtrip_witness:
  "cameraX joined_client = Fin 600 \<and> cameraY joined_client = Fin 700 \<and>
   worldToScreen joined_client
     (fst (clickToWorld joined_client (Fin 10) (Fin 20)))
     (snd (clickToWorld joined_client (Fin 10) (Fin 20))) = (Fin 10, Fin 20) \<and>
   clickToWorld joined_client
     (fst (worldToScreen joined_client (Fin 10) (Fin 20)))
     (snd (worldToScreen joined_client (Fin 10) (Fin 20))) = (Fin 10, Fin 20)"
  using click_roundtrip [where s = joined_client and cx = 600 and cy = 700 and x = 10 and y = 20]
  by (simp add: joined_client_camera)

section \<open>Rendering one avatar\<close>

text \<open>
  C6. For a rendered player facing west (or left) the frames are the east sequence and
  the frame is drawn mirrored; any other facing reads the sequence stored under its own
  name and draws the frame as it is; a missing avatar, a missing sequence or a frame
  index outside the sequence draws nothing for that player, and the call returns.
\<close>

theorem renderAvatar_resolves_frames:
  "(map_of (avatars s) (key_of (p_avatar player)) = Some a \<and>
    map_of (loadedAvatarImages s) (key_of (p_avatar player)) = Some loaded \<longrightarrow>
      ((p_facing player = Some ''left'' \<or> p_facing player = Some ''west'') \<and>
       map_of loaded ''east'' = Some fs \<and> frame_at fs (frameIndex_of player) = Some img \<longrightarrow>
         canvas_ops (renderAvatar player sx sy s) =
           canvas_ops s @
             [DrawImage (Mirrored img) (js_sub sx (js_div2 (Fin (avatarSize s))))
                (js_sub sy (js_div2 (Fin (avatarSize s))))
                (avatarSize s) (avatarSize s),
              StrokeText (key_of (p_username player)) sx
                (js_sub (js_sub sy (js_div2 (Fin (avatarSize s)))) (Fin 5)),
              FillText (key_of (p_username player)) sx
                (js_sub (js_sub sy (js_div2 (Fin (avatarSize s)))) (Fin 5))]) \<and>
      (p_facing player \<noteq> Some ''left'' \<and> p_facing player \<noteq> Some ''west'' \<and>
       map_of loaded (key_of (p_facing player)) = Some fs \<and>
       frame_at fs (frameIndex_of player) = Some img \<longrightarrow>
         canvas_ops (renderAvatar player sx sy s) =
           canvas_ops s @
             [DrawImage (Plain img) (js_sub sx (js_div2 (Fin (avatarSize s))))
                (js_sub sy (js_div2 (Fin (avatarSize s))))
                (avatarSize s) (avatarSize s),
              StrokeText (key_of (p_username player)) sx
                (js_sub (js_sub sy (js_div2 (Fin (avatarSize s)))) (Fin 5)),
              FillText (key_of (p_username player)) sx
                (js_sub (js_sub sy (js_div2 (Fin (avatarSize s)))) (Fin 5))]) \<and>
      ((if p_facing player = Some ''left'' \<or> p_facing player = Some ''west''
        then map_of loaded ''east'' else map_of loaded (key_of (p_facing player))) = None \<longrightarrow>
         canvas_ops (renderAvatar player sx sy s) = canvas_ops s) \<and>
      ((if p_facing player = Some ''left'' \<or> p_facing player = Some ''west''
        then map_of loaded ''east'' else map_of loaded (key_of (p_facing player))) = Some fs \<and>
       frame_at fs (frameIndex_of player) = None \<longrightarrow>
         canvas_ops (renderAvatar player sx sy s) = canvas_ops s)) \<and>
   (map_of (avatars s) (key_of (p_avatar player)) = None \<or>
    map_of (loadedAvatarImages s) (key_of (p_avatar player)) = None \<longrightarrow>
      renderAvatar player sx sy s = s)"
  by (auto simp add: renderAvatar_def Let_def log_def draw_def split: option.split)

text \<open>
  C6 on the sample client: the west-facing player gets the first east frame mirrored, the
  south-facing one the second south frame as it is, a frame index 2 in a sequence of two
  frames draws nothing, and so does a player without an avatar.
\<close>

theorem renderAvatar_resolves_frames_witness:
  "map_of (avatars joined_client) (key_of (p_avatar anna)) = Some knight \<and>
   p_facing anna = Some ''west'' \<and>
   canvas_ops (renderAvatar anna (Fin 10) (Fin 20) joined_client) =
     canvas_ops joined_client @
       [DrawImage (Mirrored (Image ''e0'')) (Fin (- 6)) (Fin 4) 32 32,
        StrokeText ''Anna'' (Fin 10) (Fin (- 1)), FillText ''Anna'' (Fin 10) (Fin (- 1))] \<and>
   p_facing robert = Some ''south'' \<and>
   canvas_ops (renderAvatar robert (Fin 10) (Fin 20) joined_client) =
     canvas_ops joined_client @
       [DrawImage (Plain (Image ''s1'')) (Fin (- 6)) (Fin 4) 32 32,
        StrokeText ''Robert'' (Fin 10) (Fin (- 1)), FillText ''Robert'' (Fin 10) (Fin (- 1))] \<and>
   frame_at [Image ''s0'', Image ''s1''] (frameIndex_of (robert\<lparr>p_animationFrame := Some 2\<rparr>))
     = None \<and>
   canvas_ops (renderAvatar (robert\<lparr>p_animationFrame := Some 2\<rparr>) (Fin 10) (Fin 20) joined_client) =
     canvas_ops joined_client \<and>
   map_of (avatars joined_client) (key_of (p_avatar moved_robert)) = None \<and>
   renderAvatar moved_robert (Fin 10) (Fin 20) joined_client = joined_client"
  using renderAvatar_resolves_frames [of joined_client anna knight
          "[(''north'', [Image ''n0'', Image ''n1'']), (''south'', [Image ''s0'', Image ''s1'']),
            (''east'', [Image ''e0'', Image ''e1''])]" "[Image ''e0'', Image ''e1'']" "Image ''e0''" "Fin 10" "Fin 20"]
    renderAvatar_resolves_frames [of joined_client robert knight
          "[(''north'', [Image ''n0'', Image ''n1'']), (''south'', [Image ''s0'', Image ''s1'']),
            (''east'', [Image ''e0'', Image ''e1''])]" "[Image ''s0'', Image ''s1'']" "Image ''s1''" "Fin 10" "Fin 20"]
    renderAvatar_resolves_frames [of joined_client "robert\<lparr>p_animationFrame := Some 2\<rparr>" knight
          "[(''north'', [Image ''n0'', Image ''n1'']), (''south'', [Image ''s0'', Image ''s1'']),
            (''east'', [Image ''e0'', Image ''e1''])]" "[Image ''s0'', Image ''s1'']" "Image ''s1''" "Fin 10" "Fin 20"]
    renderAvatar_resolves_frames [of joined_client moved_robert knight "[]" "[]" "Image ''s1''" "Fin 10" "Fin 20"]
  by (simp add: joined_client_store joined_client_images joined_client_size anna_def robert_def
        moved_robert_def key_of_def frame_at_def frameIndex_of_def js_sub_def fl_int)

text \<open>
  C10. For a rendered player whose animation frame index is absent, or 0, the frame drawn
  is the one at index 0 of the resolved sequence: when that sequence has a first frame,
  the sprite is drawn and not skipped.
\<close>

theorem missing_animationFrame_uses_frame_0:
  "map_of (avatars s) (key_of (p_avatar player)) = Some a \<and>
   map_of (loadedAvatarImages s) (key_of (p_avatar player)) = Some loaded \<and>
   (if p_facing player = Some ''left'' \<or> p_facing player = Some ''west''
    then map_of loaded ''east'' else map_of loaded (key_of (p_facing player))) = Some fs \<and>
   fs \<noteq> [] \<and>
   (p_animationFrame player = None \<or> p_animationFrame player = Some 0) \<longrightarrow>
     canvas_ops (renderAvatar player sx sy s) =
       canvas_ops s @
         [DrawImage ((if p_facing player = Some ''left'' \<or> p_facing player = Some ''west''
                      then Mirrored else Plain) (fs ! 0))
            (js_sub sx (js_div2 (Fin (avatarSize s))))
                (js_sub sy (js_div2 (Fin (avatarSize s)))) (avatarSize s) (avatarSize s),
          StrokeText (key_of (p_username player)) sx
                (js_sub (js_sub sy (js_div2 (Fin (avatarSize s)))) (Fin 5)),
          FillText (key_of (p_username player)) sx
                (js_sub (js_sub sy (js_div2 (Fin (avatarSize s)))) (Fin 5))]"
  by (auto simp add: renderAvatar_def Let_def log_def draw_def frame_at_def frameIndex_of_def
        split: option.split)

text \<open>C10 on the sample client: the second player has no animation frame index.\<close>

theorem missing_animationFrame_uses_frame_0_witness:
  "p_animationFrame anna = None \<and>
   canvas_ops (renderAvatar anna (Fin 10) (Fin 20) joined_client) =
     canvas_ops joined_client @
       [DrawImage (Mirrored (Image ''e0'')) (Fin (- 6)) (Fin 4) 32 32,
        StrokeText ''Anna'' (Fin 10) (Fin (- 1)), FillText ''Anna'' (Fin 10) (Fin (- 1))]"
  using missing_animationFrame_uses_frame_0 [of joined_client anna knight
          "[(''north'', [Image ''n0'', Image ''n1'']), (''south'', [Image ''s0'', Image ''s1'']),
            (''east'', [Image ''e0'', Image ''e1''])]" "[Image ''e0'', Image ''e1'']" "Fin 10" "Fin 20"]
  by (simp add: joined_client_store joined_client_images joined_client_size anna_def key_of_def
        js_sub_def fl_int)

section \<open>The connection\<close>

text \<open>
  C7. An inbound message whose payload does not parse leaves the players, the avatars and
  the local player id as they were and logs one error; the listener catches the
  exception, so it returns normally. The whole client is unchanged but for that one
  console entry.
\<close>

theorem unparseable_message_dropped:
  "JSON_parse data = None \<Longrightarrow>
   onmessage JSON_parse data s =
     s\<lparr>console := console s @ [(ERROR, ''Error parsing server message:'')]\<rparr> \<and>
   players (onmessage JSON_parse data s) = players s \<and>
   avatars (onmessage JSON_parse data s) = avatars s \<and>
   myPlayerId (onmessage JSON_parse data s) = myPlayerId s"
  by (simp add: onmessage_def log_error_def)

text \<open>C7 on the sample client and a payload the sample parser rejects.\<close>

theorem unparseable_message_dropped_witness:
  "sample_parse ''<html>'' = None \<and>
   onmessage sample_parse ''<html>'' joined_client =
     joined_client\<lparr>console := console joined_client @ [(ERROR, ''Error parsing server message:'')]\<rparr>"
  using unparseable_message_dropped [of sample_parse "''<html>''" joined_client]
  by (simp add: sample_parse_def)

text \<open>
  C8. A call of \<open>sendMoveCommand\<close> or \<open>sendStopCommand\<close> while the socket is absent or
  not open sends nothing and queues nothing: it logs one line and returns, and the client
  is otherwise unchanged.
\<close>

theorem send_when_not_open:
  "websocket s \<noteq> Some OPEN \<Longrightarrow>
   sendMoveCommand direction s =
     s\<lparr>console := console s @ [(LOG, ''WebSocket not connected, cannot send move command'')]\<rparr> \<and>
   sendStopCommand s =
     s\<lparr>console := console s @ [(LOG, ''WebSocket not connected, cannot send stop command'')]\<rparr> \<and>
   sent (sendMoveCommand direction s) = sent s \<and>
   sent (sendStopCommand s) = sent s"
  by (simp add: sendMoveCommand_def sendStopCommand_def log_def)

text \<open>C8 on a fresh client, whose socket is still connecting.\<close>

theorem send_when_not_open_witness:
  "websocket (new_GameClient 800 600) \<noteq> Some OPEN \<and>
   sent (sendMoveCommand ''up'' (new_GameClient 800 600)) = [] \<and>
   sent (sendStopCommand (new_GameClient 800 600)) = []"
  using send_when_not_open [of "new_GameClient 800 600" "''up''"]
  by (simp add: new_GameClient_def)

end
